theory Spec2Isabelle
  imports Main "HOL-Library.Word"
begin

section \<open>Data model of the chat backend\<close>

text \<open>
  The durable store is MongoDB behind Mongoose. A collection is a finite map from the
  document id to the document. An ObjectId is modelled by a natural number (the 96-bit
  value it stands for), so two ids are equal exactly when the values are equal; the
  comparisons \<^verbatim>\<open>a.toString() !== b\<close> of the source are comparisons of these numbers.
  Every id a client sends is therefore well formed: the \<^verbatim>\<open>CastError\<close> that \<^verbatim>\<open>findById\<close>
  throws on a malformed id is not among the behaviours modelled, and neither is an
  event whose payload is not an object. Timestamps (\<^verbatim>\<open>new Date()\<close>) are natural
  numbers taken from the environment, one per handler run. Each handler is modelled as
  running to its end without interleaving with another.
\<close>

type_synonym user_id = nat
type_synonym msg_id = nat
type_synonym room_id = nat
type_synonym socket_id = nat

text \<open>
  A JavaScript string is a sequence of UTF-16 code units, and its \<^verbatim>\<open>length\<close> counts
  them. The content of a message is kept that way, because the schema trims and measures
  it. The other texts (user names, titles, error messages, status names) are only
  compared and concatenated and are kept as HOL strings.
\<close>

type_synonym code_unit = "16 word"
type_synonym js_string = "code_unit list"

text \<open>\<^verbatim>\<open>models/User.js\<close>: the fields the messaging and presence engine reads or writes.\<close>

record user_doc =
  username :: string
  avatar :: string
  status :: string
  lastSeen :: nat
  friends :: "user_id list"

text \<open>
  \<^verbatim>\<open>models/Notification.js\<close>; \<^verbatim>\<open>sender\<close> and \<^verbatim>\<open>content\<close> carry a suffix because the
  message document has fields of the same names. The type is always \<^verbatim>\<open>'message'\<close> and
  \<^verbatim>\<open>relatedTo.model\<close> always \<^verbatim>\<open>'Message'\<close> on the paths modelled here.
\<close>

record notification_doc =
  recipient :: user_id
  sender_n :: user_id
  title :: string
  content_n :: string
  relatedTo :: msg_id

text \<open>
  An element of the \<^verbatim>\<open>attachments\<close> array of \<^verbatim>\<open>models/Message.js\<close>: \<^verbatim>\<open>type\<close>, \<^verbatim>\<open>url\<close>,
  \<^verbatim>\<open>filename\<close> and \<^verbatim>\<open>size\<close>, each \<open>None\<close> when absent; \<^verbatim>\<open>type\<close> and \<^verbatim>\<open>size\<close> carry a
  suffix. A value that Mongoose cannot cast to such a subdocument is not among the
  inputs.
\<close>

record attachment =
  type_a :: "string option"
  url :: "string option"
  filename :: "string option"
  size_a :: "int option"

text \<open>\<^verbatim>\<open>models/Message.js\<close>.\<close>

record message_doc =
  sender :: user_id
  content :: js_string
  conversation :: "room_id option"
  group :: "room_id option"
  attachments :: "attachment list"
  readBy :: "user_id list"
  isDeleted :: bool

text \<open>
  \<^verbatim>\<open>models/Conversation.js\<close> and the Group model share the fields \<^verbatim>\<open>lastMessage\<close>,
  \<^verbatim>\<open>unreadCount\<close> (a Mongoose Map of Number keyed by the user id) and \<^verbatim>\<open>isActive\<close>.
\<close>

record room_fields =
  lastMessage :: "msg_id option"
  unreadCount :: "user_id \<rightharpoonup> int"
  isActive :: bool

record conversation_doc = room_fields +
  participants :: "user_id list"

record group_doc = room_fields +
  name :: string
  creator :: "user_id option"
  members :: "user_id list"
  admins :: "user_id option list"

text \<open>
  \<^verbatim>\<open>creator\<close> and the entries of \<^verbatim>\<open>admins\<close> are optional because \<^verbatim>\<open>leaveGroup\<close> can
  store the \<^verbatim>\<open>undefined\<close> that \<^verbatim>\<open>Array.prototype.find\<close> returns when nothing matches.
\<close>

record db =
  users :: "user_id \<rightharpoonup> user_doc"
  messages :: "msg_id \<rightharpoonup> message_doc"
  conversations :: "room_id \<rightharpoonup> conversation_doc"
  groups :: "room_id \<rightharpoonup> group_doc"
  notifications :: "notification_doc list"

text \<open>
  What a handler takes from its environment: the clock, the id Mongoose generates for
  the message it creates, and whether the store rejects the save of the notification
  for a given recipient. The unread counters are JavaScript numbers; the values of the
  type \<open>int\<close> stand for the numbers without a fractional part.
\<close>

record env =
  now :: nat
  newMessageId :: msg_id
  notificationFails :: "user_id \<Rightarrow> bool"

text \<open>
  \<^verbatim>\<open>ApiError(message, statusCode)\<close> and the response \<^verbatim>\<open>errorHandler\<close> makes of any thrown
  error: the status code is \<^verbatim>\<open>err.statusCode || 500\<close>. For an error that Mongoose or the
  runtime throws (a validation error, a rejected save, a TypeError) the source fixes the
  status 500 only; the message text given to such an error below stands for whatever
  text the thrown error carries.
\<close>

datatype api_error = ApiError string nat

section \<open>Reading and updating the unread counters\<close>

text \<open>\<^verbatim>\<open>room.unreadCount.get(id) || 0\<close>.\<close>

definition unreadOf :: "'a room_fields_scheme \<Rightarrow> user_id \<Rightarrow> int" where
  "unreadOf room r = (case unreadCount room r of None \<Rightarrow> 0 | Some c \<Rightarrow> c)"

text \<open>The number of binary digits of a natural number.\<close>

fun bitLength :: "nat \<Rightarrow> nat" where
  "bitLength n = (if n = 0 then 0 else Suc (bitLength (n div 2)))"

declare bitLength.simps [simp del]

text \<open>
  A JavaScript number is an IEEE 754 double. The result of an arithmetic operation is
  the exact result rounded to the nearest double, a tie going to the double with the
  even significand. For an integer \<open>n\<close> that is: \<open>n\<close> itself up to \<open>2 ^ 53\<close> in
  absolute value, and beyond that the nearest multiple of the spacing \<open>q\<close> of the
  doubles around \<open>n\<close> (53 significant binary digits). The largest double, near
  \<open>2 ^ 1024\<close>, is out of the reach of a counter and is left out.
\<close>

definition toDouble :: "int \<Rightarrow> int" where
  "toDouble n =
     (if \<bar>n\<bar> \<le> 2 ^ 53 then n
      else let q = 2 ^ (bitLength (nat \<bar>n\<bar>) - 53);
               m = \<bar>n\<bar> div q;
               r = \<bar>n\<bar> mod q;
               m' = (if 2 * r > q \<or> (2 * r = q \<and> odd m) then m + 1 else m)
           in sgn n * m' * q)"

text \<open>
  The body of the \<^verbatim>\<open>recipients.forEach\<close> of every send path:
  \<^verbatim>\<open>
    const currentCount = room.unreadCount.get(recipientId) || 0;
    room.unreadCount.set(recipientId, currentCount + 1);
  \<close>
\<close>

definition incrementUnread :: "'a room_fields_scheme \<Rightarrow> user_id \<Rightarrow> 'a room_fields_scheme" where
  "incrementUnread room recipientId =
     room\<lparr>unreadCount := (unreadCount room)(recipientId \<mapsto> toDouble (unreadOf room recipientId + 1))\<rparr>"

text \<open>\<^verbatim>\<open>recipients.forEach(...)\<close>, in the order of the array.\<close>

definition incrementAll :: "user_id list \<Rightarrow> 'a room_fields_scheme \<Rightarrow> 'a room_fields_scheme" where
  "incrementAll recipients room = foldl incrementUnread room recipients"

text \<open>\<^verbatim>\<open>members.filter(m => m.toString() !== userId)\<close>.\<close>

definition othersThan :: "user_id \<Rightarrow> user_id list \<Rightarrow> user_id list" where
  "othersThan uid xs = filter (\<lambda>m. m \<noteq> uid) xs"

section \<open>Group membership: leaveGroup\<close>

text \<open>
  The pre-save hook of the Group schema that runs on every save:
  \<^verbatim>\<open>if (this.admins.length === 0) return next(new Error('Group must have at least one admin'))\<close>,
  and the \<^verbatim>\<open>required\<close> validator of \<^verbatim>\<open>creator\<close>. A thrown error that is not an ApiError is
  answered with status 500.
\<close>

definition group_save :: "group_doc \<Rightarrow> api_error + group_doc" where
  "group_save g =
     (if creator g = None then Inl (ApiError ''Group validation failed: creator: Creator is required'' 500)
      else if length (admins g) = 0 then Inl (ApiError ''Group must have at least one admin'' 500)
      else Inr g)"

text \<open>\<^verbatim>\<open>leaveGroup\<close> (POST /api/groups/:id/leave), for the authenticated user \<open>uid\<close>.\<close>

definition leaveGroup :: "user_id \<Rightarrow> room_id \<Rightarrow> db \<Rightarrow> db \<times> (api_error + string)" where
  "leaveGroup uid gid d =
     (case groups d gid of
        None \<Rightarrow> (d, Inl (ApiError ''Group not found'' 404))
      | Some g \<Rightarrow>
          if uid \<notin> set (members g) then (d, Inl (ApiError ''You are not a member of this group'' 400))
          else
            let isCreator = (creator g = Some uid);
                isOnlyAdmin = (length (admins g) = 1 \<and> admins g ! 0 = Some uid);
                g1 = (if isCreator \<and> isOnlyAdmin \<and> length (members g) > 1
                      then let newAdminId = find (\<lambda>m. m \<noteq> uid) (members g)
                           in g\<lparr>admins := admins g @ [newAdminId], creator := newAdminId\<rparr>
                      else g);
                g2 = g1\<lparr>members := othersThan uid (members g1)\<rparr>;
                g3 = (if Some uid \<in> set (admins g2)
                      then g2\<lparr>admins := filter (\<lambda>a. a \<noteq> Some uid) (admins g2)\<rparr>
                      else g2);
                g4 = (if length (members g3) = 0 then g3\<lparr>isActive := False\<rparr> else g3)
            in (case group_save g4 of
                  Inl e \<Rightarrow> (d, Inl e)
                | Inr g5 \<Rightarrow> (d\<lparr>groups := (groups d)(gid \<mapsto> g5)\<rparr>,
                            Inr ''You have left the group successfully'')))"

section \<open>Read state: markAsRead\<close>

text \<open>\<^verbatim>\<open>$addToSet\<close> on an array field.\<close>

definition addToSet :: "'a list \<Rightarrow> 'a \<Rightarrow> 'a list" where
  "addToSet xs x = (if x \<in> set xs then xs else xs @ [x])"

text \<open>
  \<^verbatim>\<open>
  Message.updateMany({ _id: { $in: messageIds }, readBy: { $ne: userId } },
                     { $addToSet: { readBy: userId } })
  \<close>
\<close>

definition markReadBy :: "msg_id list \<Rightarrow> user_id \<Rightarrow> (msg_id \<rightharpoonup> message_doc) \<Rightarrow> (msg_id \<rightharpoonup> message_doc)" where
  "markReadBy messageIds uid ms =
     (\<lambda>i. case ms i of
             None \<Rightarrow> None
           | Some m \<Rightarrow>
               if i \<in> set messageIds \<and> uid \<notin> set (readBy m)
               then Some (m\<lparr>readBy := addToSet (readBy m) uid\<rparr>)
               else Some m)"

text \<open>
  \<^verbatim>\<open>markAsRead\<close> (PUT /api/messages/read). \<open>None\<close> stands for a body whose
  \<^verbatim>\<open>messageIds\<close> is missing or not an array.
\<close>

definition markAsRead :: "user_id \<Rightarrow> msg_id list option \<Rightarrow> db \<Rightarrow> db \<times> (api_error + string)" where
  "markAsRead uid messageIds d =
     (case messageIds of
        None \<Rightarrow> (d, Inl (ApiError ''Please provide an array of message IDs'' 400))
      | Some ids \<Rightarrow> (d\<lparr>messages := markReadBy ids uid (messages d)\<rparr>, Inr ''Messages marked as read''))"

section \<open>Saving a message\<close>

text \<open>
  The \<^verbatim>\<open>trim\<close> setter of \<^verbatim>\<open>content\<close> is \<^verbatim>\<open>String.prototype.trim\<close>, which strips the
  white space and line terminator code units of ECMAScript at both ends: U+0009 to
  U+000D, U+0020, U+00A0, U+1680, U+2000 to U+200A, U+2028, U+2029, U+202F, U+205F,
  U+3000 and U+FEFF.
\<close>

definition is_space :: "code_unit \<Rightarrow> bool" where
  "is_space c =
     (c \<in> set [0x0009, 0x000A, 0x000B, 0x000C, 0x000D, 0x0020, 0x00A0, 0x1680,
                0x2000, 0x2001, 0x2002, 0x2003, 0x2004, 0x2005, 0x2006, 0x2007,
                0x2008, 0x2009, 0x200A, 0x2028, 0x2029, 0x202F, 0x205F, 0x3000, 0xFEFF])"

definition trim :: "js_string \<Rightarrow> js_string" where
  "trim s = rev (dropWhile is_space (rev (dropWhile is_space s)))"

text \<open>The \<^verbatim>\<open>enum\<close> validator of the \<^verbatim>\<open>type\<close> of an attachment; an absent type passes.\<close>

definition attachment_ok :: "attachment \<Rightarrow> bool" where
  "attachment_ok a =
     (case type_a a of
        None \<Rightarrow> True
      | Some t \<Rightarrow> t \<in> set [''image'', ''file'', ''audio'', ''video''])"

text \<open>
  \<^verbatim>\<open>message.save()\<close> / \<^verbatim>\<open>Message.create\<close>: the validators of \<^verbatim>\<open>content\<close> (required,
  at most 1000 code units after trimming) and of the attachments, and the pre-save hook
  (exactly one of \<^verbatim>\<open>conversation\<close> and \<^verbatim>\<open>group\<close>). \<open>None\<close> is the thrown error.
\<close>

definition message_save :: "message_doc \<Rightarrow> message_doc option" where
  "message_save m =
     (let m' = m\<lparr>content := trim (content m)\<rparr>
      in if content m' = [] \<or> length (content m') > 1000 then None
         else if \<not> list_all attachment_ok (attachments m') then None
         else if (conversation m' \<noteq> None \<and> group m' \<noteq> None)
               \<or> (conversation m' = None \<and> group m' = None) then None
         else Some m')"

section \<open>Live connections and rooms\<close>

text \<open>
  The rooms of Socket.IO: \<^verbatim>\<open>userId\<close>, \<^verbatim>\<open>conversation:<id>\<close> and \<^verbatim>\<open>group:<id>\<close>.
\<close>

datatype room = UserRoom user_id | ConversationRoom room_id | GroupRoom room_id

text \<open>The \<^verbatim>\<open>conversationId\<close> or \<^verbatim>\<open>groupId\<close> field of an outbound payload.\<close>

datatype room_ref = ConversationRef room_id | GroupRef room_id

text \<open>
  A live socket: \<^verbatim>\<open>socket.id\<close>, \<^verbatim>\<open>socket.user\<close> (\<^verbatim>\<open>id\<close>, \<^verbatim>\<open>username\<close>, \<^verbatim>\<open>avatar\<close>), the
  rooms it has joined, and the \<^verbatim>\<open>user\<close> variable its connection handler captured
  (the friends of the user as populated at connection time; \<open>None\<close> when the
  lookup returned \<^verbatim>\<open>null\<close>).
\<close>

record socket =
  sid :: socket_id
  uid :: user_id
  uname :: string
  uavatar :: string
  rooms :: "room \<Rightarrow> bool"
  friendsAtConnect :: "user_id list option"

text \<open>The events the server emits, with their payloads.\<close>

datatype out_event =
    ErrorEvent string
  | MessageNew msg_id js_string "(user_id \<times> string \<times> string) option" room_ref "attachment list" "user_id list" nat
  | NotificationNew string string user_id string string nat
  | TypingUpdate user_id string bool room_ref
  | MessageRead user_id "msg_id list" room_ref
  | UserStatus user_id string nat
  | StatusUpdated string
  | StatusList "user_id \<rightharpoonup> (string \<times> nat)"
  | PresenceHistory user_id string nat

text \<open>A delivery is an event handed to one live socket.\<close>

type_synonym delivery = "socket_id \<times> out_event"

text \<open>\<^verbatim>\<open>io.to(room)\<close>: every live socket that has joined the room.\<close>

definition io_to :: "socket list \<Rightarrow> room \<Rightarrow> socket_id list" where
  "io_to live r = map sid (filter (\<lambda>s. rooms s r) live)"

text \<open>\<^verbatim>\<open>socket.to(room)\<close>: the same, the emitting socket itself excluded.\<close>

definition socket_to :: "socket list \<Rightarrow> socket \<Rightarrow> room \<Rightarrow> socket_id list" where
  "socket_to live sock r = filter (\<lambda>i. i \<noteq> sid sock) (io_to live r)"

definition emit :: "socket_id list \<Rightarrow> out_event \<Rightarrow> delivery list" where
  "emit targets ev = map (\<lambda>i. (i, ev)) targets"

text \<open>\<^verbatim>\<open>message.populate('sender', 'username avatar')\<close>.\<close>

definition populateSender :: "db \<Rightarrow> user_id \<Rightarrow> (user_id \<times> string \<times> string) option" where
  "populateSender d u = (case users d u of None \<Rightarrow> None | Some doc \<Rightarrow> Some (u, username doc, avatar doc))"

section \<open>Socket handlers for messages\<close>

text \<open>
  The notification loop of \<^verbatim>\<open>message:private\<close> and \<^verbatim>\<open>message:group\<close>:
  \<^verbatim>\<open>
  for (const recipient of recipients) {
    const notification = new Notification({...});
    await notification.save();
    io.to(recipient.toString()).emit('notification:new', {...});
  }
  \<close>
  The result is the store, the deliveries made, and whether the loop ran to its end;
  \<open>False\<close> means that a save threw, which ends the loop.
\<close>

fun createNotifications ::
  "env \<Rightarrow> socket list \<Rightarrow> socket \<Rightarrow> string \<Rightarrow> string \<Rightarrow> msg_id \<Rightarrow> user_id list \<Rightarrow> db
     \<Rightarrow> db \<times> delivery list \<times> bool" where
  "createNotifications e live sock ttl txt mid [] d = (d, [], True)"
| "createNotifications e live sock ttl txt mid (r # rs) d =
     (if notificationFails e r then (d, [], False)
      else
        let notification = \<lparr>recipient = r, sender_n = uid sock, title = ttl, content_n = txt, relatedTo = mid\<rparr>;
            d1 = d\<lparr>notifications := notifications d @ [notification]\<rparr>;
            pushed = emit (io_to live (UserRoom r))
                       (NotificationNew ttl txt (uid sock) (uname sock) (uavatar sock) (now e))
        in (case createNotifications e live sock ttl txt mid rs d1 of
              (d2, rest, ok) \<Rightarrow> (d2, pushed @ rest, ok)))"

text \<open>
  \<^verbatim>\<open>socket.on('message:private', ...)\<close>. \<open>conversationId = None\<close> is a falsy id, an
  empty \<open>content_in\<close> a falsy content, \<open>attachments_in = None\<close> a falsy attachment
  list. Whatever is thrown inside the \<^verbatim>\<open>try\<close> ends in the \<^verbatim>\<open>catch\<close>, which emits
  \<^verbatim>\<open>'Failed to send message'\<close> to the socket; what was written before stays written.
\<close>

definition message_private ::
  "env \<Rightarrow> socket list \<Rightarrow> socket \<Rightarrow> room_id option \<Rightarrow> js_string \<Rightarrow> attachment list option \<Rightarrow> db
     \<Rightarrow> db \<times> delivery list" where
  "message_private e live sock conversationId content_in attachments_in d =
     (case conversationId of
        None \<Rightarrow> (d, [(sid sock, ErrorEvent ''Conversation ID and content are required'')])
      | Some cid \<Rightarrow>
          if content_in = [] then (d, [(sid sock, ErrorEvent ''Conversation ID and content are required'')])
          else
            (case conversations d cid of
               None \<Rightarrow> (d, [(sid sock, ErrorEvent ''Conversation not found'')])
             | Some c \<Rightarrow>
                 if uid sock \<notin> set (participants c)
                 then (d, [(sid sock, ErrorEvent ''Not authorized to send messages to this conversation'')])
                 else
                   (case message_save \<lparr>sender = uid sock, content = content_in, conversation = Some cid,
                                       group = None,
                                       attachments = (case attachments_in of None \<Rightarrow> [] | Some a \<Rightarrow> a),
                                       readBy = [uid sock], isDeleted = False\<rparr> of
                      None \<Rightarrow> (d, [(sid sock, ErrorEvent ''Failed to send message'')])
                    | Some m \<Rightarrow>
                        let d1 = d\<lparr>messages := (messages d)(newMessageId e \<mapsto> m)\<rparr>;
                            recipients = othersThan (uid sock) (participants c);
                            c' = incrementAll recipients (c\<lparr>lastMessage := Some (newMessageId e)\<rparr>);
                            d2 = d1\<lparr>conversations := (conversations d1)(cid \<mapsto> c')\<rparr>;
                            delivered = emit (io_to live (ConversationRoom cid))
                                          (MessageNew (newMessageId e) (content m) (populateSender d2 (uid sock))
                                             (ConversationRef cid) (attachments m) (readBy m) (now e))
                        in (case createNotifications e live sock ''New Message''
                                   (uname sock @ '' sent you a message'') (newMessageId e) recipients d2 of
                              (d3, pushed, ok) \<Rightarrow>
                                (d3, delivered @ pushed @
                                     (if ok then [] else [(sid sock, ErrorEvent ''Failed to send message'')]))))))"

text \<open>\<^verbatim>\<open>socket.on('message:group', ...)\<close>; \<^verbatim>\<open>group.save()\<close> runs the hooks of the Group schema.\<close>

definition message_group ::
  "env \<Rightarrow> socket list \<Rightarrow> socket \<Rightarrow> room_id option \<Rightarrow> js_string \<Rightarrow> attachment list option \<Rightarrow> db
     \<Rightarrow> db \<times> delivery list" where
  "message_group e live sock groupId content_in attachments_in d =
     (case groupId of
        None \<Rightarrow> (d, [(sid sock, ErrorEvent ''Group ID and content are required'')])
      | Some gid \<Rightarrow>
          if content_in = [] then (d, [(sid sock, ErrorEvent ''Group ID and content are required'')])
          else
            (case groups d gid of
               None \<Rightarrow> (d, [(sid sock, ErrorEvent ''Group not found'')])
             | Some g \<Rightarrow>
                 if uid sock \<notin> set (members g)
                 then (d, [(sid sock, ErrorEvent ''Not authorized to send messages to this group'')])
                 else
                   (case message_save \<lparr>sender = uid sock, content = content_in, conversation = None,
                                       group = Some gid,
                                       attachments = (case attachments_in of None \<Rightarrow> [] | Some a \<Rightarrow> a),
                                       readBy = [uid sock], isDeleted = False\<rparr> of
                      None \<Rightarrow> (d, [(sid sock, ErrorEvent ''Failed to send message'')])
                    | Some m \<Rightarrow>
                        let d1 = d\<lparr>messages := (messages d)(newMessageId e \<mapsto> m)\<rparr>;
                            recipients = othersThan (uid sock) (members g)
                        in (case group_save (incrementAll recipients (g\<lparr>lastMessage := Some (newMessageId e)\<rparr>)) of
                              Inl err \<Rightarrow> (d1, [(sid sock, ErrorEvent ''Failed to send message'')])
                            | Inr g' \<Rightarrow>
                                let d2 = d1\<lparr>groups := (groups d1)(gid \<mapsto> g')\<rparr>;
                                    delivered = emit (io_to live (GroupRoom gid))
                                                  (MessageNew (newMessageId e) (content m)
                                                     (populateSender d2 (uid sock))
                                                     (GroupRef gid) (attachments m) (readBy m) (now e))
                                in (case createNotifications e live sock (''New Message in '' @ name g)
                                           (uname sock @ '' sent a message in '' @ name g)
                                           (newMessageId e) recipients d2 of
                                      (d3, pushed, ok) \<Rightarrow>
                                        (d3, delivered @ pushed @
                                             (if ok then []
                                              else [(sid sock, ErrorEvent ''Failed to send message'')])))))))"

text \<open>
  \<^verbatim>\<open>socket.on('typing:start', ...)\<close> and \<^verbatim>\<open>socket.on('typing:stop', ...)\<close>. Neither
  touches a model; the store is passed through to say so.
\<close>

definition typing_start :: "socket list \<Rightarrow> socket \<Rightarrow> room_id option \<Rightarrow> room_id option \<Rightarrow> db \<Rightarrow> db \<times> delivery list" where
  "typing_start live sock conversationId groupId d =
     (case conversationId of
        Some cid \<Rightarrow> (d, emit (socket_to live sock (ConversationRoom cid))
                          (TypingUpdate (uid sock) (uname sock) True (ConversationRef cid)))
      | None \<Rightarrow>
          (case groupId of
             Some gid \<Rightarrow> (d, emit (socket_to live sock (GroupRoom gid))
                               (TypingUpdate (uid sock) (uname sock) True (GroupRef gid)))
           | None \<Rightarrow> (d, [])))"

definition typing_stop :: "socket list \<Rightarrow> socket \<Rightarrow> room_id option \<Rightarrow> room_id option \<Rightarrow> db \<Rightarrow> db \<times> delivery list" where
  "typing_stop live sock conversationId groupId d =
     (case conversationId of
        Some cid \<Rightarrow> (d, emit (socket_to live sock (ConversationRoom cid))
                          (TypingUpdate (uid sock) (uname sock) False (ConversationRef cid)))
      | None \<Rightarrow>
          (case groupId of
             Some gid \<Rightarrow> (d, emit (socket_to live sock (GroupRoom gid))
                               (TypingUpdate (uid sock) (uname sock) False (GroupRef gid)))
           | None \<Rightarrow> (d, [])))"

text \<open>
  \<^verbatim>\<open>Model.findByIdAndUpdate(id, { $set: { [`unreadCount.${userId}`]: 0 } })\<close>: nothing
  happens when no document has the id.
\<close>

definition resetUnread :: "user_id \<Rightarrow> room_id \<Rightarrow> (room_id \<rightharpoonup> 'a room_fields_scheme) \<Rightarrow> (room_id \<rightharpoonup> 'a room_fields_scheme)" where
  "resetUnread u i coll =
     (case coll i of
        None \<Rightarrow> coll
      | Some r \<Rightarrow> coll(i \<mapsto> r\<lparr>unreadCount := (unreadCount r)(u \<mapsto> 0)\<rparr>))"

text \<open>
  \<^verbatim>\<open>socket.on('message:read', ...)\<close>. \<open>messageIds = None\<close> is a value that is missing
  or not an array.
\<close>

definition message_read ::
  "socket list \<Rightarrow> socket \<Rightarrow> msg_id list option \<Rightarrow> room_id option \<Rightarrow> room_id option \<Rightarrow> db
     \<Rightarrow> db \<times> delivery list" where
  "message_read live sock messageIds conversationId groupId d =
     (case messageIds of
        None \<Rightarrow> (d, [])
      | Some ids \<Rightarrow>
          if length ids = 0 then (d, [])
          else
            let d1 = d\<lparr>messages := markReadBy ids (uid sock) (messages d)\<rparr>
            in (case conversationId of
                  Some cid \<Rightarrow>
                    (d1\<lparr>conversations := resetUnread (uid sock) cid (conversations d1)\<rparr>,
                     emit (io_to live (ConversationRoom cid)) (MessageRead (uid sock) ids (ConversationRef cid)))
                | None \<Rightarrow>
                    (case groupId of
                       Some gid \<Rightarrow>
                         (d1\<lparr>groups := resetUnread (uid sock) gid (groups d1)\<rparr>,
                          emit (io_to live (GroupRoom gid)) (MessageRead (uid sock) ids (GroupRef gid)))
                     | None \<Rightarrow> (d1, []))))"

section \<open>The HTTP send path: sendMessage\<close>

text \<open>
  The notification loop of \<^verbatim>\<open>sendMessage\<close>:
  \<^verbatim>\<open>for (const recipient of recipients) { await Notification.create({...}); }\<close>
  \<open>False\<close> means that a create threw.
\<close>

fun createAll :: "env \<Rightarrow> user_id \<Rightarrow> string \<Rightarrow> string \<Rightarrow> msg_id \<Rightarrow> user_id list \<Rightarrow> db \<Rightarrow> db \<times> bool" where
  "createAll e u ttl txt mid [] d = (d, True)"
| "createAll e u ttl txt mid (r # rs) d =
     (if notificationFails e r then (d, False)
      else createAll e u ttl txt mid rs
             (d\<lparr>notifications := notifications d @
                   [\<lparr>recipient = r, sender_n = u, title = ttl, content_n = txt, relatedTo = mid\<rparr>]\<rparr>))"

text \<open>
  The end of both branches: \<^verbatim>\<open>const sender = await User.findById(req.user.id)\<close>, the
  loop (whose body reads \<^verbatim>\<open>sender.username\<close>, a TypeError when the sender is
  \<^verbatim>\<open>null\<close>), and the 201 response. \<open>mk\<close> builds title and content from the sender's
  name.
\<close>

definition notifyAndRespond ::
  "env \<Rightarrow> user_id \<Rightarrow> (string \<Rightarrow> string \<times> string) \<Rightarrow> msg_id \<Rightarrow> message_doc \<Rightarrow> user_id list \<Rightarrow> db
     \<Rightarrow> db \<times> (api_error + msg_id \<times> message_doc)" where
  "notifyAndRespond e u mk mid m recipients d =
     (if recipients = [] then (d, Inr (mid, m))
      else
        (case users d u of
           None \<Rightarrow> (d, Inl (ApiError ''Cannot read properties of null'' 500))
         | Some sender_doc \<Rightarrow>
             (case createAll e u (fst (mk (username sender_doc))) (snd (mk (username sender_doc)))
                     mid recipients d of
                (d', ok) \<Rightarrow>
                  if ok then (d', Inr (mid, m))
                  else (d', Inl (ApiError ''Notification validation failed'' 500)))))"

text \<open>The branch \<^verbatim>\<open>targetModel === 'Conversation'\<close> with the lookup that precedes it.\<close>

definition sendMessage_conversation ::
  "env \<Rightarrow> user_id \<Rightarrow> js_string \<Rightarrow> room_id \<Rightarrow> attachment list option \<Rightarrow> db
     \<Rightarrow> db \<times> (api_error + msg_id \<times> message_doc)" where
  "sendMessage_conversation e u content_in cid attachments_in d =
     (case conversations d cid of
        None \<Rightarrow> (d, Inl (ApiError ''Conversation not found'' 404))
      | Some c0 \<Rightarrow>
          if u \<notin> set (participants c0) then (d, Inl (ApiError ''You are not part of this conversation'' 403))
          else
            let recipients = othersThan u (participants c0)
            in (case message_save \<lparr>sender = u, content = content_in, conversation = Some cid, group = None,
                                    attachments = (case attachments_in of None \<Rightarrow> [] | Some a \<Rightarrow> a),
                                    readBy = [u], isDeleted = False\<rparr> of
                  None \<Rightarrow> (d, Inl (ApiError ''Message validation failed'' 500))
                | Some m \<Rightarrow>
                    let d1 = d\<lparr>messages := (messages d)(newMessageId e \<mapsto> m)\<rparr>
                    in (case conversations d1 cid of
                          None \<Rightarrow> (d1, Inl (ApiError ''Cannot set properties of null'' 500))
                        | Some c \<Rightarrow>
                            let c' = incrementAll recipients (c\<lparr>lastMessage := Some (newMessageId e)\<rparr>);
                                d2 = d1\<lparr>conversations := (conversations d1)(cid \<mapsto> c')\<rparr>
                            in notifyAndRespond e u
                                 (\<lambda>n. (''New Message'', n @ '' sent you a message''))
                                 (newMessageId e) m recipients d2)))"

text \<open>The branch \<^verbatim>\<open>targetModel === 'Group'\<close> with the lookup that precedes it.\<close>

definition sendMessage_group ::
  "env \<Rightarrow> user_id \<Rightarrow> js_string \<Rightarrow> room_id \<Rightarrow> attachment list option \<Rightarrow> db
     \<Rightarrow> db \<times> (api_error + msg_id \<times> message_doc)" where
  "sendMessage_group e u content_in gid attachments_in d =
     (case groups d gid of
        None \<Rightarrow> (d, Inl (ApiError ''Group not found'' 404))
      | Some g0 \<Rightarrow>
          if u \<notin> set (members g0) then (d, Inl (ApiError ''You are not a member of this group'' 403))
          else
            let recipients = othersThan u (members g0)
            in (case message_save \<lparr>sender = u, content = content_in, conversation = None, group = Some gid,
                                    attachments = (case attachments_in of None \<Rightarrow> [] | Some a \<Rightarrow> a),
                                    readBy = [u], isDeleted = False\<rparr> of
                  None \<Rightarrow> (d, Inl (ApiError ''Message validation failed'' 500))
                | Some m \<Rightarrow>
                    let d1 = d\<lparr>messages := (messages d)(newMessageId e \<mapsto> m)\<rparr>
                    in (case groups d1 gid of
                          None \<Rightarrow> (d1, Inl (ApiError ''Cannot set properties of null'' 500))
                        | Some g \<Rightarrow>
                            (case group_save (incrementAll recipients (g\<lparr>lastMessage := Some (newMessageId e)\<rparr>)) of
                               Inl err \<Rightarrow> (d1, Inl err)
                             | Inr g' \<Rightarrow>
                                 notifyAndRespond e u
                                   (\<lambda>n. (''New Message in '' @ name g', n @ '' sent a message in '' @ name g'))
                                   (newMessageId e) m recipients
                                   (d1\<lparr>groups := (groups d1)(gid \<mapsto> g')\<rparr>)))))"

text \<open>\<^verbatim>\<open>sendMessage\<close> (POST /api/messages), for the authenticated user \<open>u\<close>.\<close>

definition sendMessage ::
  "env \<Rightarrow> user_id \<Rightarrow> js_string \<Rightarrow> room_id option \<Rightarrow> room_id option \<Rightarrow> attachment list option \<Rightarrow> db
     \<Rightarrow> db \<times> (api_error + msg_id \<times> message_doc)" where
  "sendMessage e u content_in conversationId groupId attachments_in d =
     (if (conversationId \<noteq> None \<and> groupId \<noteq> None) \<or> (conversationId = None \<and> groupId = None)
      then (d, Inl (ApiError ''Please provide either a conversation ID or a group ID'' 400))
      else
        (case conversationId of
           Some cid \<Rightarrow> sendMessage_conversation e u content_in cid attachments_in d
         | None \<Rightarrow>
             (case groupId of
                Some gid \<Rightarrow> sendMessage_group e u content_in gid attachments_in d
              | None \<Rightarrow> (d, Inl (ApiError ''Please provide either a conversation ID or a group ID'' 400)))))"

section \<open>Socket handlers for presence\<close>

text \<open>\<^verbatim>\<open>User.findByIdAndUpdate(id, fields)\<close>: nothing happens when no user has the id.\<close>

definition updateUser :: "user_id \<Rightarrow> (user_doc \<Rightarrow> user_doc) \<Rightarrow> (user_id \<rightharpoonup> user_doc) \<Rightarrow> (user_id \<rightharpoonup> user_doc)" where
  "updateUser u f us = (case us u of None \<Rightarrow> us | Some doc \<Rightarrow> us(u \<mapsto> f doc))"

text \<open>
  \<^verbatim>\<open>User.findById(id).populate('friends', '_id')\<close>, then \<^verbatim>\<open>user && user.friends\<close>: the
  friends that still exist, or \<open>None\<close> when the user does not.
\<close>

definition populateFriends :: "db \<Rightarrow> user_id \<Rightarrow> user_id list option" where
  "populateFriends d u =
     (case users d u of
        None \<Rightarrow> None
      | Some doc \<Rightarrow> Some (filter (\<lambda>f. users d f \<noteq> None) (friends doc)))"

text \<open>\<^verbatim>\<open>user.friends.forEach(friend => io.to(friend._id.toString()).emit('user:status', ...))\<close>.\<close>

definition notifyFriends :: "socket list \<Rightarrow> user_id list \<Rightarrow> out_event \<Rightarrow> delivery list" where
  "notifyFriends live fs ev = concat (map (\<lambda>f. emit (io_to live (UserRoom f)) ev) fs)"

text \<open>\<^verbatim>\<open>socket.on('status:change', ...)\<close>.\<close>

definition status_change :: "env \<Rightarrow> socket list \<Rightarrow> socket \<Rightarrow> string \<Rightarrow> db \<Rightarrow> db \<times> delivery list" where
  "status_change e live sock status_in d =
     (if status_in \<notin> set [''online'', ''offline'', ''away'', ''busy'']
      then (d, [(sid sock, ErrorEvent ''Invalid status'')])
      else
        let d1 = d\<lparr>users := updateUser (uid sock) (\<lambda>doc. doc\<lparr>status := status_in, lastSeen := now e\<rparr>) (users d)\<rparr>;
            told = (case populateFriends d1 (uid sock) of
                      None \<Rightarrow> []
                    | Some fs \<Rightarrow> notifyFriends live fs (UserStatus (uid sock) status_in (now e)))
        in (d1, told @ [(sid sock, StatusUpdated status_in)]))"

text \<open>
  \<^verbatim>\<open>socket.on('status:get', ...)\<close>. \<open>userIds = None\<close> is a value that is missing or not
  an array.
\<close>

definition status_get :: "socket \<Rightarrow> user_id list option \<Rightarrow> db \<Rightarrow> db \<times> delivery list" where
  "status_get sock userIds d =
     (case userIds of
        None \<Rightarrow> (d, [(sid sock, ErrorEvent ''Invalid user IDs'')])
      | Some ids \<Rightarrow>
          (d, [(sid sock,
                StatusList (\<lambda>i. if i \<in> set ids
                                 then map_option (\<lambda>doc. (status doc, lastSeen doc)) (users d i)
                                 else None))]))"


text \<open>\<^verbatim>\<open>socket.on('presence:history', ...)\<close>. \<open>userId = None\<close> is a falsy id.\<close>

definition presence_history :: "socket \<Rightarrow> user_id option \<Rightarrow> db \<Rightarrow> db \<times> delivery list" where
  "presence_history sock userId d =
     (case userId of
        None \<Rightarrow> (d, [(sid sock, ErrorEvent ''User ID is required'')])
      | Some i \<Rightarrow>
          (case users d i of
             None \<Rightarrow> (d, [(sid sock, ErrorEvent ''User not found'')])
           | Some doc \<Rightarrow> (d, [(sid sock, PresenceHistory i (status doc) (lastSeen doc))])))"

section \<open>The socket manager\<close>

text \<open>
  A connection: the socket, how many of the four \<^verbatim>\<open>await\<close>s of its connection handler
  have resolved, and whether Socket.IO still holds the socket as connected. The handler
  registers the listeners of the socket, the one for \<^verbatim>\<open>'disconnect'\<close> among them, after
  its fourth \<^verbatim>\<open>await\<close>.
\<close>

record conn =
  conn_socket :: socket
  conn_stage :: nat
  conn_open :: bool

text \<open>
  The state of the process: the durable store, the connections made so far, and the
  \<^verbatim>\<open>userSockets\<close> map of \<^verbatim>\<open>socketManager\<close>. A JavaScript \<^verbatim>\<open>Set\<close> of socket ids is a
  list without repetition, in insertion order.
\<close>

record server =
  store :: db
  conns :: "conn list"
  userSockets :: "user_id \<rightharpoonup> socket_id list"

text \<open>The sockets Socket.IO holds as connected: an emit to a room reaches these only.\<close>

definition connected :: "server \<Rightarrow> socket list" where
  "connected sv = map conn_socket (filter conn_open (conns sv))"

text \<open>
  The rooms a socket has joined when its connection handler is done: its user's room,
  the rooms of the active conversations the user takes part in, and those of the active
  groups the user is a member of.
\<close>

definition joinedRooms :: "db \<Rightarrow> user_id \<Rightarrow> room \<Rightarrow> bool" where
  "joinedRooms d u r =
     (case r of
        UserRoom v \<Rightarrow> v = u
      | ConversationRoom c \<Rightarrow>
          (case conversations d c of None \<Rightarrow> False | Some conv \<Rightarrow> u \<in> set (participants conv) \<and> isActive conv)
      | GroupRoom g \<Rightarrow>
          (case groups d g of None \<Rightarrow> False | Some grp \<Rightarrow> u \<in> set (members grp) \<and> isActive grp))"

text \<open>
  \<^verbatim>\<open>Conversation.find({ participants: id, isActive: true })\<close> and
  \<^verbatim>\<open>Group.find({ members: id, isActive: true })\<close>, as the rooms that the two
  \<^verbatim>\<open>forEach\<close> loops of the connection handler join.
\<close>

definition conversationRooms :: "db \<Rightarrow> user_id \<Rightarrow> room \<Rightarrow> bool" where
  "conversationRooms d u r =
     (case r of
        ConversationRoom c \<Rightarrow>
          (case conversations d c of None \<Rightarrow> False | Some conv \<Rightarrow> u \<in> set (participants conv) \<and> isActive conv)
      | UserRoom v \<Rightarrow> False
      | GroupRoom g \<Rightarrow> False)"

definition groupRooms :: "db \<Rightarrow> user_id \<Rightarrow> room \<Rightarrow> bool" where
  "groupRooms d u r =
     (case r of
        GroupRoom g \<Rightarrow>
          (case groups d g of None \<Rightarrow> False | Some grp \<Rightarrow> u \<in> set (members grp) \<and> isActive grp)
      | UserRoom v \<Rightarrow> False
      | ConversationRoom c \<Rightarrow> False)"

text \<open>
  \<^verbatim>\<open>io.on('connection', async (socket) => ...)\<close> for a socket with id \<open>s\<close> that the
  authentication middleware gave the user \<open>(u, n, a)\<close>, up to its first \<^verbatim>\<open>await\<close>: the
  socket joins the room of its user and its id is added to \<^verbatim>\<open>userSockets\<close>.
\<close>

definition connection_start :: "socket_id \<Rightarrow> user_id \<Rightarrow> string \<Rightarrow> string \<Rightarrow> server \<Rightarrow> server" where
  "connection_start s u n a sv =
     (let sock0 = \<lparr>sid = s, uid = u, uname = n, uavatar = a, rooms = (\<lambda>r. r = UserRoom u),
                   friendsAtConnect = None\<rparr>;
          sets = (case userSockets sv u of
                    None \<Rightarrow> (userSockets sv)(u \<mapsto> addToSet [] s)
                  | Some xs \<Rightarrow> (userSockets sv)(u \<mapsto> addToSet xs s))
      in sv\<lparr>conns := conns sv @ [\<lparr>conn_socket = sock0, conn_stage = 0, conn_open = True\<rparr>],
            userSockets := sets\<rparr>)"

text \<open>
  The handler from one \<^verbatim>\<open>await\<close> to the next; it goes on whether or not the socket is
  still connected. In turn: \<^verbatim>\<open>User.findByIdAndUpdate\<close> writes the status
  \<^verbatim>\<open>'online'\<close>; \<^verbatim>\<open>User.findById(...).populate('friends', '_id')\<close> gives \<^verbatim>\<open>user\<close>, and
  the friends are told; \<^verbatim>\<open>Conversation.find\<close> gives the conversation rooms to join;
  \<^verbatim>\<open>Group.find\<close> gives the group rooms to join, after which the listeners are
  registered (stage 4). \<open>live\<close> are the sockets connected at that moment.
\<close>

definition connection_resume :: "env \<Rightarrow> socket list \<Rightarrow> conn \<Rightarrow> db \<Rightarrow> conn \<times> db \<times> delivery list" where
  "connection_resume e live c d =
     (let sock = conn_socket c; u = uid sock
      in if conn_stage c = 0
         then (c\<lparr>conn_stage := 1\<rparr>,
               d\<lparr>users := updateUser u (\<lambda>doc. doc\<lparr>status := ''online'', lastSeen := now e\<rparr>) (users d)\<rparr>,
               [])
         else if conn_stage c = 1
         then (let user = populateFriends d u
               in (c\<lparr>conn_socket := sock\<lparr>friendsAtConnect := user\<rparr>, conn_stage := 2\<rparr>, d,
                   (case user of
                      None \<Rightarrow> []
                    | Some fs \<Rightarrow> notifyFriends live fs (UserStatus u ''online'' (now e)))))
         else if conn_stage c = 2
         then (c\<lparr>conn_socket := sock\<lparr>rooms := (\<lambda>r. rooms sock r \<or> conversationRooms d u r)\<rparr>,
                 conn_stage := 3\<rparr>, d, [])
         else (c\<lparr>conn_socket := sock\<lparr>rooms := (\<lambda>r. rooms sock r \<or> groupRooms d u r)\<rparr>,
                 conn_stage := 4\<rparr>, d, []))"

text \<open>
  \<^verbatim>\<open>socket.on('disconnect', ...)\<close>, run for \<open>sock\<close> once Socket.IO has taken it out of
  the connected sockets. The one \<^verbatim>\<open>await\<close> of the listener, the write of the status
  \<^verbatim>\<open>'offline'\<close>, is taken to resolve at once.
\<close>

definition disconnect :: "env \<Rightarrow> socket \<Rightarrow> server \<Rightarrow> server \<times> delivery list" where
  "disconnect e sock sv =
     (case userSockets sv (uid sock) of
        None \<Rightarrow> (sv, [])
      | Some xs \<Rightarrow>
          let xs' = removeAll (sid sock) xs
          in if length xs' = 0
             then (sv\<lparr>userSockets := (userSockets sv)(uid sock := None),
                      store := (store sv)\<lparr>users := updateUser (uid sock)
                                                      (\<lambda>doc. doc\<lparr>status := ''offline'', lastSeen := now e\<rparr>)
                                                      (users (store sv))\<rparr>\<rparr>,
                   (case friendsAtConnect sock of
                      None \<Rightarrow> []
                    | Some fs \<Rightarrow> notifyFriends (connected sv) fs (UserStatus (uid sock) ''offline'' (now e))))
             else (sv\<lparr>userSockets := (userSockets sv)(uid sock \<mapsto> xs')\<rparr>, []))"

text \<open>
  What happens around the two handlers. A connecting socket gets an id that no socket
  had before, and its handler starts. A pending \<^verbatim>\<open>await\<close> of a handler resolves, and the
  handler goes on to its next one. A connected socket is closed: Socket.IO takes it
  out of the connected sockets and raises \<^verbatim>\<open>'disconnect'\<close> on it once, which runs the
  listener if the handler has registered it by then, and nothing otherwise.
\<close>

datatype sm_event = Connect socket_id user_id string string | Resume socket_id | Disconnect socket_id

fun sm_step :: "env \<Rightarrow> sm_event \<Rightarrow> server \<Rightarrow> (server \<times> delivery list) option" where
  "sm_step e (Connect s u n a) sv =
     (if s \<in> set (map (\<lambda>c. sid (conn_socket c)) (conns sv)) then None
      else Some (connection_start s u n a sv, []))"
| "sm_step e (Resume s) sv =
     (case find (\<lambda>c. sid (conn_socket c) = s \<and> conn_stage c < 4) (conns sv) of
        None \<Rightarrow> None
      | Some c \<Rightarrow>
          (case connection_resume e (connected sv) c (store sv) of
             (c', d', out) \<Rightarrow>
               Some (sv\<lparr>store := d',
                        conns := map (\<lambda>x. if sid (conn_socket x) = s then c' else x) (conns sv)\<rparr>, out)))"
| "sm_step e (Disconnect s) sv =
     (case find (\<lambda>c. sid (conn_socket c) = s \<and> conn_open c) (conns sv) of
        None \<Rightarrow> None
      | Some c \<Rightarrow>
          let sv1 = sv\<lparr>conns := map (\<lambda>x. if sid (conn_socket x) = s then x\<lparr>conn_open := False\<rparr> else x)
                                    (conns sv)\<rparr>
          in if conn_stage c = 4 then Some (disconnect e (conn_socket c) sv1) else Some (sv1, []))"

fun sm_run :: "(env \<times> sm_event) list \<Rightarrow> server \<Rightarrow> server option" where
  "sm_run [] sv = Some sv"
| "sm_run ((e, ev) # evs) sv =
     (case sm_step e ev sv of
        None \<Rightarrow> None
      | Some (sv', out) \<Rightarrow> sm_run evs sv')"

text \<open>The process as it starts: no socket has connected and \<^verbatim>\<open>userSockets\<close> is \<^verbatim>\<open>new Map()\<close>.\<close>

definition startup :: "db \<Rightarrow> server" where
  "startup d = \<lparr>store = d, conns = [], userSockets = Map.empty\<rparr>"

section \<open>Auxiliary predicates\<close>

text \<open>Whether an emitted event is an \<^verbatim>\<open>'error'\<close> event.\<close>

fun isError :: "out_event \<Rightarrow> bool" where
  "isError (ErrorEvent msg) = True"
| "isError ev = False"

text \<open>
  After a run of the socket manager from its start on store \<open>d\<close>: the ids of the
  connected sockets, the entry of user \<open>u\<close> in \<^verbatim>\<open>userSockets\<close>, and the stored status
  of \<open>u\<close>. The outer \<open>None\<close> is a run that cannot happen.
\<close>

definition liveAfter :: "(env \<times> sm_event) list \<Rightarrow> db \<Rightarrow> socket_id list option" where
  "liveAfter tr d = map_option (\<lambda>sv. map sid (connected sv)) (sm_run tr (startup d))"

definition registryAfter :: "(env \<times> sm_event) list \<Rightarrow> db \<Rightarrow> user_id \<Rightarrow> socket_id list option option" where
  "registryAfter tr d u = map_option (\<lambda>sv. userSockets sv u) (sm_run tr (startup d))"

definition statusAfter :: "(env \<times> sm_event) list \<Rightarrow> db \<Rightarrow> user_id \<Rightarrow> string option option" where
  "statusAfter tr d u = map_option (\<lambda>sv. map_option status (users (store sv) u)) (sm_run tr (startup d))"

text \<open>
  What the validators of \<^verbatim>\<open>content\<close> accept: after trimming, a non-empty text of at
  most 1000 code units.
\<close>

definition validContent :: "js_string \<Rightarrow> bool" where
  "validContent s = (trim s \<noteq> [] \<and> length (trim s) \<le> 1000)"

text \<open>What the validators of a new message accept: such a content, and attachments of a listed type.\<close>

definition validMessage :: "js_string \<Rightarrow> attachment list option \<Rightarrow> bool" where
  "validMessage content_in attachments_in =
     (validContent content_in
      \<and> list_all attachment_ok (case attachments_in of None \<Rightarrow> [] | Some a \<Rightarrow> a))"


text \<open>The notification document that the send paths create for recipient \<open>r\<close>.\<close>

definition mkNotification :: "user_id \<Rightarrow> string \<Rightarrow> string \<Rightarrow> msg_id \<Rightarrow> user_id \<Rightarrow> notification_doc" where
  "mkNotification u ttl txt mid r = \<lparr>recipient = r, sender_n = u, title = ttl, content_n = txt, relatedTo = mid\<rparr>"

text \<open>The message document that a send stores: the sender has read it, and the content is trimmed.\<close>

definition sentMessage :: "user_id \<Rightarrow> js_string \<Rightarrow> room_id option \<Rightarrow> room_id option \<Rightarrow> attachment list option \<Rightarrow> message_doc" where
  "sentMessage u content_in cid gid attachments_in =
     \<lparr>sender = u, content = trim content_in, conversation = cid, group = gid,
      attachments = (case attachments_in of None \<Rightarrow> [] | Some a \<Rightarrow> a),
      readBy = [u], isDeleted = False\<rparr>"

text \<open>Whether an emitted event is a \<^verbatim>\<open>message:new\<close> event.\<close>

fun isMessageNew :: "out_event \<Rightarrow> bool" where
  "isMessageNew (MessageNew i c s r a rb t) = True"
| "isMessageNew ev = False"


text \<open>The status code of an error response; \<open>None\<close> for a success.\<close>

fun errorStatus :: "api_error + 'a \<Rightarrow> nat option" where
  "errorStatus (Inl (ApiError msg code)) = Some code"
| "errorStatus (Inr x) = None"

text \<open>
  The inputs \<^verbatim>\<open>message:private\<close> rejects for validation, authorization or a missing
  conversation: no conversation id, no content, a content or an attachment the Message
  validators refuse, an unknown conversation, or a sender who is not a participant.
\<close>

definition private_rejects :: "socket \<Rightarrow> room_id option \<Rightarrow> js_string \<Rightarrow> attachment list option \<Rightarrow> db \<Rightarrow> bool" where
  "private_rejects sock conversationId content_in attachments_in d =
     (case conversationId of
        None \<Rightarrow> True
      | Some cid \<Rightarrow>
          content_in = [] \<or> \<not> validMessage content_in attachments_in
          \<or> (case conversations d cid of None \<Rightarrow> True | Some c \<Rightarrow> uid sock \<notin> set (participants c)))"

text \<open>The same for \<^verbatim>\<open>message:group\<close>.\<close>

definition group_rejects :: "socket \<Rightarrow> room_id option \<Rightarrow> js_string \<Rightarrow> attachment list option \<Rightarrow> db \<Rightarrow> bool" where
  "group_rejects sock groupId content_in attachments_in d =
     (case groupId of
        None \<Rightarrow> True
      | Some gid \<Rightarrow>
          content_in = [] \<or> \<not> validMessage content_in attachments_in
          \<or> (case groups d gid of None \<Rightarrow> True | Some g \<Rightarrow> uid sock \<notin> set (members g)))"

text \<open>The deliveries are exactly one \<^verbatim>\<open>'error'\<close> event, handed to socket \<open>s\<close>.\<close>

fun oneErrorTo :: "socket_id \<Rightarrow> delivery list \<Rightarrow> bool" where
  "oneErrorTo s [(i, ErrorEvent msg)] = (i = s)"
| "oneErrorTo s evs = False"

section \<open>Example states\<close>

text \<open>
  Users 1 (alice), 2 (bob) and 3 (carol); conversation 20 between alice and bob with
  message 30 from alice; conversation 21, which alice opened with herself
  (\<^verbatim>\<open>createConversation\<close> with her own id as \<^verbatim>\<open>participantId\<close>); group 10 created by alice with members alice and bob; group 11
  with the same members and admin, whose creator carol has left; group 12 with alice
  alone.
\<close>

definition ex_users :: "user_id \<rightharpoonup> user_doc" where
  "ex_users =
     [1 \<mapsto> \<lparr>username = ''alice'', avatar = ''a.png'', status = ''online'', lastSeen = 0, friends = [2]\<rparr>,
      2 \<mapsto> \<lparr>username = ''bob'', avatar = ''b.png'', status = ''away'', lastSeen = 0, friends = [1]\<rparr>,
      3 \<mapsto> \<lparr>username = ''carol'', avatar = ''c.png'', status = ''offline'', lastSeen = 0, friends = []\<rparr>]"

text \<open>The contents "hello" and, of a space and a no-break space only, a blank one.\<close>

definition ex_hello :: js_string where
  "ex_hello = [0x68, 0x65, 0x6C, 0x6C, 0x6F]"

definition ex_blank :: js_string where
  "ex_blank = [0x20, 0xA0]"

definition ex_message :: message_doc where
  "ex_message = \<lparr>sender = 1, content = ex_hello, conversation = Some 20, group = None,
                 attachments = [], readBy = [1], isDeleted = False\<rparr>"

definition ex_conversation :: conversation_doc where
  "ex_conversation = \<lparr>lastMessage = Some 30, unreadCount = [2 \<mapsto> 1], isActive = True,
                      participants = [1, 2]\<rparr>"

definition ex_conversation_self :: conversation_doc where
  "ex_conversation_self = \<lparr>lastMessage = None, unreadCount = [1 \<mapsto> 0], isActive = True,
                           participants = [1, 1]\<rparr>"

definition ex_group :: group_doc where
  "ex_group = \<lparr>lastMessage = None, unreadCount = Map.empty, isActive = True, name = ''team'',
               creator = Some 1, members = [1, 2], admins = [Some 1]\<rparr>"

definition ex_group_orphan :: group_doc where
  "ex_group_orphan = \<lparr>lastMessage = None, unreadCount = Map.empty, isActive = True, name = ''club'',
                      creator = Some 3, members = [1, 2], admins = [Some 1]\<rparr>"

definition ex_group_solo :: group_doc where
  "ex_group_solo = \<lparr>lastMessage = None, unreadCount = Map.empty, isActive = True, name = ''solo'',
                    creator = Some 1, members = [1], admins = [Some 1]\<rparr>"




definition ex_db :: db where
  "ex_db = \<lparr>users = ex_users, messages = [30 \<mapsto> ex_message],
            conversations = [20 \<mapsto> ex_conversation, 21 \<mapsto> ex_conversation_self],
            groups = [10 \<mapsto> ex_group, 11 \<mapsto> ex_group_orphan, 12 \<mapsto> ex_group_solo],
            notifications = []\<rparr>"

text \<open>
  Alice is connected from two devices (sockets 100 and 101) and bob from one (socket
  200); each socket has joined the rooms of its user.
\<close>

definition ex_sock_a :: socket where
  "ex_sock_a = \<lparr>sid = 100, uid = 1, uname = ''alice'', uavatar = ''a.png'',
                rooms = joinedRooms ex_db 1, friendsAtConnect = Some [2]\<rparr>"

definition ex_sock_a2 :: socket where
  "ex_sock_a2 = \<lparr>sid = 101, uid = 1, uname = ''alice'', uavatar = ''a.png'',
                 rooms = joinedRooms ex_db 1, friendsAtConnect = Some [2]\<rparr>"

definition ex_sock_b :: socket where
  "ex_sock_b = \<lparr>sid = 200, uid = 2, uname = ''bob'', uavatar = ''b.png'',
                rooms = joinedRooms ex_db 2, friendsAtConnect = Some [1]\<rparr>"

definition ex_live :: "socket list" where
  "ex_live = [ex_sock_a, ex_sock_a2, ex_sock_b]"

text \<open>An environment in which every notification is saved, and one in which bob's is not.\<close>

definition ex_env :: env where
  "ex_env = \<lparr>now = 5, newMessageId = 31, notificationFails = (\<lambda>r. False)\<rparr>"

definition ex_env_failing :: env where
  "ex_env_failing = \<lparr>now = 5, newMessageId = 31, notificationFails = (\<lambda>r. r = 2)\<rparr>"

text \<open>
  Three runs of the socket manager, each with alice's socket 100 only. In the first the
  socket is closed after its connection handler is done. In the second it is closed
  while the handler waits on its first \<^verbatim>\<open>await\<close>, and the handler runs to its end
  afterwards. The third goes on from the second: alice connects again with socket 101,
  whose handler is done before it is closed.
\<close>

definition ex_trace_late :: "(env \<times> sm_event) list" where
  "ex_trace_late = [(ex_env, Connect 100 1 ''alice'' ''a.png''),
                    (ex_env, Resume 100), (ex_env, Resume 100), (ex_env, Resume 100), (ex_env, Resume 100),
                    (ex_env, Disconnect 100)]"

definition ex_trace_early :: "(env \<times> sm_event) list" where
  "ex_trace_early = [(ex_env, Connect 100 1 ''alice'' ''a.png''),
                     (ex_env, Disconnect 100),
                     (ex_env, Resume 100), (ex_env, Resume 100), (ex_env, Resume 100), (ex_env, Resume 100)]"

definition ex_trace_again :: "(env \<times> sm_event) list" where
  "ex_trace_again = ex_trace_early @
                    [(ex_env, Connect 101 1 ''alice'' ''a.png''),
                     (ex_env, Resume 101), (ex_env, Resume 101), (ex_env, Resume 101), (ex_env, Resume 101),
                     (ex_env, Disconnect 101)]"

section \<open>Verified properties\<close>

subsection \<open>Leaving a group\<close>

lemma find_other_member:
  assumes "set ms = {A, B}" "A \<noteq> B"
  shows "find (\<lambda>m. m \<noteq> A) ms = Some B"
proof (cases "find (\<lambda>m. m \<noteq> A) ms")
  case None
  have b: "B \<in> set ms" using assms(1) by simp
  have "\<not> (\<exists>x. x \<in> set ms \<and> x \<noteq> A)" using None unfolding find_None_iff .
  then have "B = A" using b by blast
  with assms(2) show ?thesis by simp
next
  case (Some x)
  then obtain i where i: "i < length ms" "ms ! i \<noteq> A" "x = ms ! i"
    unfolding find_Some_iff by blast
  from i(1,3) have "x \<in> set ms" by simp
  with i(2,3) assms(1) have "x = B" by blast
  with Some show ?thesis by simp
qed

lemma two_members_length:
  assumes "set ms = {A, B}" "A \<noteq> B"
  shows "length ms > 1"
proof -
  have "card (set ms) = 2" using assms by simp
  then show ?thesis using card_length[of ms] by linarith
qed

lemma othersThan_two:
  assumes "set ms = {A, B}" "A \<noteq> B"
  shows "set (othersThan A ms) = {B}"
  using assms by (auto simp: othersThan_def)

lemma leaveGroup_creator_only_admin:
  assumes "groups d gid = Some g" "creator g = Some A" "admins g = [Some A]"
    "set (members g) = {A, B}" "A \<noteq> B"
  shows "leaveGroup A gid d =
      (d\<lparr>groups := (groups d)(gid \<mapsto> g\<lparr>creator := Some B, members := othersThan A (members g),
                                          admins := [Some B]\<rparr>)\<rparr>,
       Inr ''You have left the group successfully'')"
proof -
  have f: "find (\<lambda>m. m \<noteq> A) (members g) = Some B" using find_other_member[OF assms(4,5)] .
  have l: "length (members g) > 1" using two_members_length[OF assms(4,5)] .
  have m: "A \<in> set (members g)" using assms(4) by simp
  have o: "othersThan A (members g) \<noteq> []" using othersThan_two[OF assms(4,5)] by auto
  show ?thesis
    using assms(1,2,3,5) f l m o
    by (simp add: leaveGroup_def group_save_def Let_def)
qed

text \<open>
  Claim C7, as amended. In a group whose admins are exactly A and whose members are
  exactly A and B, when A is also the creator of the group and leaves, the request
  succeeds, B becomes the only admin and the creator, A is no longer a member or an
  admin, and an active group stays active.
\<close>

theorem C7_creator_leaving_hands_over:
  assumes "groups d gid = Some g" "creator g = Some A" "admins g = [Some A]"
    "set (members g) = {A, B}" "A \<noteq> B" "isActive g"
  shows "snd (leaveGroup A gid d) = Inr ''You have left the group successfully''
     \<and> map_option admins (groups (fst (leaveGroup A gid d)) gid) = Some [Some B]
     \<and> map_option creator (groups (fst (leaveGroup A gid d)) gid) = Some (Some B)
     \<and> map_option (\<lambda>x. set (members x)) (groups (fst (leaveGroup A gid d)) gid) = Some {B}
     \<and> map_option isActive (groups (fst (leaveGroup A gid d)) gid) = Some True"
  using assms(6) othersThan_two[OF assms(4,5)]
  by (simp add: leaveGroup_creator_only_admin[OF assms(1-5)])

theorem C7_witness:
  "groups ex_db 10 = Some ex_group \<and> creator ex_group = Some 1 \<and> admins ex_group = [Some 1]
   \<and> set (members ex_group) = {1, 2} \<and> isActive ex_group
   \<and> snd (leaveGroup 1 10 ex_db) = Inr ''You have left the group successfully''
   \<and> map_option admins (groups (fst (leaveGroup 1 10 ex_db)) 10) = Some [Some 2]
   \<and> map_option creator (groups (fst (leaveGroup 1 10 ex_db)) 10) = Some (Some 2)
   \<and> map_option (\<lambda>x. set (members x)) (groups (fst (leaveGroup 1 10 ex_db)) 10) = Some {2}
   \<and> map_option isActive (groups (fst (leaveGroup 1 10 ex_db)) 10) = Some True"
  using C7_creator_leaving_hands_over[of ex_db 10 ex_group 1 2]
  by (simp add: ex_db_def ex_group_def)

text \<open>
  Claim C7 as stated fails when the only admin is not the creator. Group 11 has admins
  {alice} and members {alice, bob}, and its creator is carol: alice's request to leave is
  answered with an error of status 500, bob does not become an admin, and alice stays a
  member and the admin.
\<close>

theorem C7_counterexample:
  "map_option admins (groups ex_db 11) = Some [Some 1]
   \<and> map_option members (groups ex_db 11) = Some [1, 2]
   \<and> snd (leaveGroup 1 11 ex_db) = Inl (ApiError ''Group must have at least one admin'' 500)
   \<and> map_option admins (groups (fst (leaveGroup 1 11 ex_db)) 11) = Some [Some 1]
   \<and> map_option members (groups (fst (leaveGroup 1 11 ex_db)) 11) = Some [1, 2]"
  by (simp add: leaveGroup_def ex_db_def ex_group_orphan_def group_save_def othersThan_def Let_def)

subsection \<open>Marking messages as read\<close>

lemma markReadBy_idem: "markReadBy ids u (markReadBy ids u ms) = markReadBy ids u ms"
proof
  fix i
  show "markReadBy ids u (markReadBy ids u ms) i = markReadBy ids u ms i"
    by (cases "ms i") (simp_all add: markReadBy_def addToSet_def)
qed

lemma resetUnread_idem: "resetUnread u i (resetUnread u i coll) = resetUnread u i coll"
  by (cases "coll i") (simp_all add: resetUnread_def)

lemma markAsRead_twice:
  "fst (markAsRead u (Some ids) (fst (markAsRead u (Some ids) d))) = fst (markAsRead u (Some ids) d)"
  by (simp add: markAsRead_def markReadBy_idem)

lemma message_read_twice:
  "fst (message_read live sock (Some ids) cid gid (fst (message_read live sock (Some ids) cid gid d)))
     = fst (message_read live sock (Some ids) cid gid d)"
  by (cases cid; cases gid) (simp_all add: message_read_def Let_def markReadBy_idem resetUnread_idem)

lemma message_read_no_error:
  "filter (\<lambda>p. isError (snd p)) (snd (message_read live sock mids cid gid d)) = []"
  by (cases mids; cases cid; cases gid) (simp_all add: message_read_def Let_def emit_def)

lemma markReadBy_already:
  "ms i = Some m \<Longrightarrow> u \<in> set (readBy m) \<Longrightarrow> markReadBy ids u ms i = Some m"
  by (simp add: markReadBy_def)

text \<open>
  Claim C2. Marking the same list of message ids as read a second time leaves the store
  as the first call left it, on the HTTP path (\<^verbatim>\<open>markAsRead\<close>) and on the socket path
  (\<^verbatim>\<open>message:read\<close>); the second call is answered as a success and emits no error
  event; and a message the reader has already read is left as it is.
\<close>

theorem C2_markRead_idempotent:
  "fst (markAsRead u (Some ids) (fst (markAsRead u (Some ids) d))) = fst (markAsRead u (Some ids) d)
   \<and> snd (markAsRead u (Some ids) (fst (markAsRead u (Some ids) d))) = Inr ''Messages marked as read''
   \<and> fst (message_read live sock (Some ids) cid gid (fst (message_read live sock (Some ids) cid gid d)))
       = fst (message_read live sock (Some ids) cid gid d)
   \<and> filter (\<lambda>p. isError (snd p))
        (snd (message_read live sock (Some ids) cid gid (fst (message_read live sock (Some ids) cid gid d)))) = []
   \<and> (messages d i = Some m \<and> u \<in> set (readBy m) \<longrightarrow>
        messages (fst (markAsRead u (Some ids) d)) i = Some m)
   \<and> (messages d i = Some m \<and> uid sock \<in> set (readBy m) \<longrightarrow>
        messages (fst (message_read live sock (Some ids) cid gid d)) i = Some m)"
proof -
  have a: "snd (markAsRead u (Some ids) (fst (markAsRead u (Some ids) d))) = Inr ''Messages marked as read''"
    by (simp add: markAsRead_def)
  have b: "messages d i = Some m \<and> u \<in> set (readBy m) \<longrightarrow>
        messages (fst (markAsRead u (Some ids) d)) i = Some m"
    by (simp add: markAsRead_def markReadBy_already)
  have c: "messages d i = Some m \<and> uid sock \<in> set (readBy m) \<longrightarrow>
        messages (fst (message_read live sock (Some ids) cid gid d)) i = Some m"
    by (cases cid; cases gid) (simp_all add: message_read_def Let_def markReadBy_already)
  show ?thesis
    using markAsRead_twice a message_read_twice message_read_no_error b c by blast
qed

theorem C2_witness:
  "messages ex_db 30 = Some ex_message \<and> 1 \<in> set (readBy ex_message) \<and> uid ex_sock_a = 1
   \<and> fst (markAsRead 1 (Some [30]) (fst (markAsRead 1 (Some [30]) ex_db))) = fst (markAsRead 1 (Some [30]) ex_db)
   \<and> snd (markAsRead 1 (Some [30]) (fst (markAsRead 1 (Some [30]) ex_db))) = Inr ''Messages marked as read''
   \<and> fst (message_read ex_live ex_sock_a (Some [30]) (Some 20) None
             (fst (message_read ex_live ex_sock_a (Some [30]) (Some 20) None ex_db)))
       = fst (message_read ex_live ex_sock_a (Some [30]) (Some 20) None ex_db)
   \<and> messages (fst (markAsRead 1 (Some [30]) ex_db)) 30 = Some ex_message
   \<and> messages (fst (message_read ex_live ex_sock_a (Some [30]) (Some 20) None ex_db)) 30 = Some ex_message"
  using C2_markRead_idempotent[of 1 "[30]" ex_db ex_live ex_sock_a "Some 20" None 30 ex_message]
  by (simp add: ex_db_def ex_message_def ex_sock_a_def)

subsection \<open>Presence ping\<close>





subsection \<open>The socket registry\<close>

text \<open>The definitions that evaluate a run of the socket manager on the example store.\<close>

lemmas sm_eval = startup_def connection_start_def connection_resume_def disconnect_def connected_def
  Let_def addToSet_def updateUser_def populateFriends_def notifyFriends_def io_to_def emit_def
  conversationRooms_def groupRooms_def ex_env_def ex_db_def ex_users_def

lemma sm_run_late:
  "sm_run ex_trace_late (startup ex_db) \<noteq> None"
  "map_option (\<lambda>sv. map sid (connected sv)) (sm_run ex_trace_late (startup ex_db)) = Some []"
  "map_option (\<lambda>sv. userSockets sv 1) (sm_run ex_trace_late (startup ex_db)) = Some None"
  "map_option (\<lambda>sv. map_option status (users (store sv) 1)) (sm_run ex_trace_late (startup ex_db))
     = Some (Some ''offline'')"
  by (simp_all add: ex_trace_late_def sm_eval)

lemma sm_run_early:
  "map_option (\<lambda>sv. map sid (connected sv)) (sm_run ex_trace_early (startup ex_db)) = Some []"
  "map_option (\<lambda>sv. userSockets sv 1) (sm_run ex_trace_early (startup ex_db)) = Some (Some [100])"
  "map_option (\<lambda>sv. map_option status (users (store sv) 1)) (sm_run ex_trace_early (startup ex_db))
     = Some (Some ''online'')"
  by (simp_all add: ex_trace_early_def sm_eval)

lemma sm_run_again:
  "map_option (\<lambda>sv. map sid (connected sv)) (sm_run ex_trace_again (startup ex_db)) = Some []"
  "map_option (\<lambda>sv. userSockets sv 1) (sm_run ex_trace_again (startup ex_db)) = Some (Some [100])"
  "map_option (\<lambda>sv. map_option status (users (store sv) 1)) (sm_run ex_trace_again (startup ex_db))
     = Some (Some ''online'')"
  by (simp_all add: ex_trace_again_def ex_trace_early_def sm_eval)

text \<open>
  Claim C10 fails on the code. When alice's socket 100 is closed after its connection
  handler is done, the run ends as the claim says: no socket is connected,
  \<^verbatim>\<open>userSockets\<close> has no entry for alice and her stored status is \<^verbatim>\<open>'offline'\<close>. When the
  socket is closed while the handler still waits on its first \<^verbatim>\<open>await\<close>, no listener
  for \<^verbatim>\<open>'disconnect'\<close> is registered yet: the entry \<open>[100]\<close> of alice stays in
  \<^verbatim>\<open>userSockets\<close> although none of her sockets is connected, and the handler, going on,
  stores the status \<^verbatim>\<open>'online'\<close>. When alice then connects with socket 101 and
  disconnects in the regular way, the listener finds her set not empty: the entry
  stays, and the status \<^verbatim>\<open>'offline'\<close> is not written.
\<close>

theorem C10_early_disconnect_leaves_stale_entry:
  "liveAfter ex_trace_late ex_db = Some []
   \<and> registryAfter ex_trace_late ex_db 1 = Some None
   \<and> statusAfter ex_trace_late ex_db 1 = Some (Some ''offline'')
   \<and> liveAfter ex_trace_early ex_db = Some []
   \<and> registryAfter ex_trace_early ex_db 1 = Some (Some [100])
   \<and> statusAfter ex_trace_early ex_db 1 = Some (Some ''online'')
   \<and> liveAfter ex_trace_again ex_db = Some []
   \<and> registryAfter ex_trace_again ex_db 1 = Some (Some [100])
   \<and> statusAfter ex_trace_again ex_db 1 = Some (Some ''online'')"
  unfolding liveAfter_def registryAfter_def statusAfter_def
  using sm_run_late sm_run_early sm_run_again by simp

subsection \<open>Sending a message\<close>

lemma trim_Nil: "trim [] = []"
  by (simp add: trim_def)

lemma validMessage_nonempty: "validMessage s a \<Longrightarrow> s \<noteq> []"
  by (auto simp: validMessage_def validContent_def trim_Nil)

lemma message_save_valid:
  "validMessage (content m) (Some (attachments m)) \<Longrightarrow> (conversation m = None) \<noteq> (group m = None) \<Longrightarrow>
   message_save m = Some (m\<lparr>content := trim (content m)\<rparr>)"
  by (auto simp: message_save_def validMessage_def validContent_def Let_def)

lemma message_save_invalid:
  "\<not> validMessage (content m) (Some (attachments m)) \<Longrightarrow> message_save m = None"
  by (auto simp: message_save_def validMessage_def validContent_def Let_def)

text \<open>
  The validators at two contents with a no-break space (U+00A0): alone it is trimmed
  away and the content is refused; after 1000 letters it is trimmed away and the
  content is accepted.
\<close>

lemma validContent_nbsp_alone: "\<not> validContent [0xA0]"
  by (simp add: validContent_def trim_def is_space_def)

lemma trim_letters_nbsp:
  assumes "\<not> is_space c"
  shows "trim (replicate (Suc n) c @ [0xA0]) = replicate (Suc n) c"
proof -
  have s: "is_space 0xA0" by (simp add: is_space_def)
  have a: "dropWhile is_space (replicate (Suc n) c @ [0xA0]) = replicate (Suc n) c @ [0xA0]"
    using assms by simp
  have b: "dropWhile is_space (0xA0 # replicate (Suc n) c) = replicate (Suc n) c"
    using assms s by simp
  have r: "rev (replicate (Suc n) c @ [0xA0]) = 0xA0 # replicate (Suc n) c"
    by (simp add: replicate_append_same)
  show ?thesis
    unfolding trim_def a r b by (rule rev_replicate)
qed

lemma validContent_letters_nbsp: "validContent (replicate 1000 0x61 @ [0xA0])"
proof -
  have "\<not> is_space (0x61 :: code_unit)" by (simp add: is_space_def)
  then have "trim (replicate (Suc 999) 0x61 @ [0xA0]) = replicate (Suc 999) 0x61"
    by (rule trim_letters_nbsp)
  then have "trim (replicate 1000 0x61 @ [0xA0]) = replicate 1000 0x61" by simp
  then show ?thesis by (simp add: validContent_def)
qed

lemma validMessage_attachments:
  "validMessage s (Some (case a of None \<Rightarrow> [] | Some x \<Rightarrow> x)) = validMessage s a"
  by (simp add: validMessage_def split: option.splits)




lemma unreadOf_incrementUnread:
  "unreadOf (incrementUnread room x) r = (if r = x then toDouble (unreadOf room x + 1) else unreadOf room r)"
  by (simp add: incrementUnread_def unreadOf_def)

lemma incrementAll_Cons: "incrementAll (x # xs) room = incrementAll xs (incrementUnread room x)"
  by (simp add: incrementAll_def)

lemma incrementAll_Nil: "incrementAll [] room = room"
  by (simp add: incrementAll_def)


text \<open>
  Without the assumption that the list has no repetition, the loop adds one for every
  occurrence of a user in the list.
\<close>

lemma incrementAll_unread_count:
  "unreadOf (incrementAll rs room) r = ((\<lambda>c. toDouble (c + 1)) ^^ count_list rs r) (unreadOf room r)"
proof (induction rs arbitrary: room)
  case Nil
  then show ?case by (simp add: incrementAll_Nil)
next
  case (Cons x xs)
  have "unreadOf (incrementAll xs (incrementUnread room x)) r
      = ((\<lambda>c. toDouble (c + 1)) ^^ count_list xs r) (unreadOf (incrementUnread room x) r)"
    by (rule Cons.IH)
  then show ?case
    by (simp add: incrementAll_Cons unreadOf_incrementUnread funpow_Suc_right del: funpow.simps)
qed


lemma incrementAll_lastMessage: "lastMessage (incrementAll rs room) = lastMessage room"
  by (induction rs arbitrary: room) (simp_all add: incrementAll_Nil incrementAll_Cons incrementUnread_def)

lemma incrementAll_group_fields:
  "admins (incrementAll rs g) = admins g \<and> creator (incrementAll rs g) = creator g
   \<and> name (incrementAll rs g) = name g \<and> members (incrementAll rs g) = members g"
  by (induction rs arbitrary: g) (simp_all add: incrementAll_Nil incrementAll_Cons incrementUnread_def)

lemma group_save_ok:
  "creator g \<noteq> None \<Longrightarrow> admins g \<noteq> [] \<Longrightarrow> group_save (incrementAll rs (g\<lparr>lastMessage := x\<rparr>)) = Inr (incrementAll rs (g\<lparr>lastMessage := x\<rparr>))"
  by (simp add: group_save_def incrementAll_group_fields)



lemma createNotifications_ok:
  "snd (snd (createNotifications e live sock ttl txt mid rs d)) = list_all (\<lambda>r. \<not> notificationFails e r) rs"
  by (induction rs arbitrary: d) (simp_all add: Let_def case_prod_beta)

lemma createNotifications_no_error:
  "filter (\<lambda>p. isError (snd p)) (fst (snd (createNotifications e live sock ttl txt mid rs d))) = []"
  by (induction rs arbitrary: d) (simp_all add: Let_def emit_def case_prod_beta)

lemma createNotifications_db:
  "fst (createNotifications e live sock ttl txt mid rs d)
     = d\<lparr>notifications := notifications d @
            map (mkNotification (uid sock) ttl txt mid) (takeWhile (\<lambda>r. \<not> notificationFails e r) rs)\<rparr>"
  by (induction rs arbitrary: d) (simp_all add: Let_def mkNotification_def case_prod_beta)

lemma createAll_ok:
  "snd (createAll e u ttl txt mid rs d) = list_all (\<lambda>r. \<not> notificationFails e r) rs"
  by (induction rs arbitrary: d) simp_all

lemma createAll_db:
  "fst (createAll e u ttl txt mid rs d)
     = d\<lparr>notifications := notifications d @
            map (mkNotification u ttl txt mid) (takeWhile (\<lambda>r. \<not> notificationFails e r) rs)\<rparr>"
  by (induction rs arbitrary: d) (simp_all add: mkNotification_def)

lemma createNotifications_no_messageNew:
  "filter (\<lambda>p. isMessageNew (snd p)) (fst (snd (createNotifications e live sock ttl txt mid rs d))) = []"
  by (induction rs arbitrary: d) (simp_all add: Let_def emit_def case_prod_beta)

lemma message_private_result:
  fixes e live sock cid content_in att d c
  defines "rs \<equiv> othersThan (uid sock) (participants c)"
  defines "d2 \<equiv> d\<lparr>messages := (messages d)(newMessageId e \<mapsto> sentMessage (uid sock) content_in (Some cid) None att),
                   conversations := (conversations d)(cid \<mapsto> incrementAll rs (c\<lparr>lastMessage := Some (newMessageId e)\<rparr>))\<rparr>"
  defines "cn \<equiv> createNotifications e live sock ''New Message'' (uname sock @ '' sent you a message'')
                   (newMessageId e) rs d2"
  assumes c: "conversations d cid = Some c" and mem: "uid sock \<in> set (participants c)"
    and v: "validMessage content_in att"
  shows "message_private e live sock (Some cid) content_in att d =
     (fst cn,
      emit (io_to live (ConversationRoom cid))
        (MessageNew (newMessageId e) (trim content_in) (populateSender d2 (uid sock)) (ConversationRef cid)
           (case att of None \<Rightarrow> [] | Some a \<Rightarrow> a) [uid sock] (now e))
      @ fst (snd cn)
      @ (if snd (snd cn) then [] else [(sid sock, ErrorEvent ''Failed to send message'')]))"
proof -
  have ne: "content_in \<noteq> []" using v by (rule validMessage_nonempty)
  have sv: "message_save \<lparr>sender = uid sock, content = content_in, conversation = Some cid, group = None,
                          attachments = (case att of None \<Rightarrow> [] | Some a \<Rightarrow> a),
                          readBy = [uid sock], isDeleted = False\<rparr>
            = Some (sentMessage (uid sock) content_in (Some cid) None att)"
    using v by (simp add: message_save_valid validMessage_attachments sentMessage_def)
  show ?thesis
    unfolding message_private_def cn_def d2_def rs_def
    using c mem ne sv by (simp add: Let_def case_prod_beta sentMessage_def populateSender_def)
qed

lemma message_private_store:
  assumes "conversations d cid = Some c" "uid sock \<in> set (participants c)" "validMessage content_in att"
  shows "conversations (fst (message_private e live sock (Some cid) content_in att d))
           = (conversations d)(cid \<mapsto> incrementAll (othersThan (uid sock) (participants c))
                                          (c\<lparr>lastMessage := Some (newMessageId e)\<rparr>))"
    and "messages (fst (message_private e live sock (Some cid) content_in att d))
           = (messages d)(newMessageId e \<mapsto> sentMessage (uid sock) content_in (Some cid) None att)"
    and "notifications (fst (message_private e live sock (Some cid) content_in att d))
           = notifications d @ map (mkNotification (uid sock) ''New Message'' (uname sock @ '' sent you a message'') (newMessageId e))
                                 (takeWhile (\<lambda>r. \<not> notificationFails e r) (othersThan (uid sock) (participants c)))"
    and "filter (\<lambda>p. isError (snd p)) (snd (message_private e live sock (Some cid) content_in att d))
           = (if list_all (\<lambda>r. \<not> notificationFails e r) (othersThan (uid sock) (participants c)) then []
              else [(sid sock, ErrorEvent ''Failed to send message'')])"
    and "filter (\<lambda>p. isMessageNew (snd p)) (snd (message_private e live sock (Some cid) content_in att d))
           = emit (io_to live (ConversationRoom cid))
               (MessageNew (newMessageId e) (trim content_in) (populateSender d (uid sock)) (ConversationRef cid)
                  (case att of None \<Rightarrow> [] | Some a \<Rightarrow> a) [uid sock] (now e))"
  unfolding message_private_result[OF assms]
  by (simp_all add: createNotifications_db createNotifications_ok createNotifications_no_error
        createNotifications_no_messageNew emit_def populateSender_def)

lemma message_group_result:
  fixes e live sock gid content_in att d g
  defines "rs \<equiv> othersThan (uid sock) (members g)"
  defines "d2 \<equiv> d\<lparr>messages := (messages d)(newMessageId e \<mapsto> sentMessage (uid sock) content_in None (Some gid) att),
                   groups := (groups d)(gid \<mapsto> incrementAll rs (g\<lparr>lastMessage := Some (newMessageId e)\<rparr>))\<rparr>"
  defines "cn \<equiv> createNotifications e live sock (''New Message in '' @ name g)
                   (uname sock @ '' sent a message in '' @ name g) (newMessageId e) rs d2"
  assumes g: "groups d gid = Some g" and mem: "uid sock \<in> set (members g)"
    and v: "validMessage content_in att" and cr: "creator g \<noteq> None" and ad: "admins g \<noteq> []"
  shows "message_group e live sock (Some gid) content_in att d =
     (fst cn,
      emit (io_to live (GroupRoom gid))
        (MessageNew (newMessageId e) (trim content_in) (populateSender d2 (uid sock)) (GroupRef gid)
           (case att of None \<Rightarrow> [] | Some a \<Rightarrow> a) [uid sock] (now e))
      @ fst (snd cn)
      @ (if snd (snd cn) then [] else [(sid sock, ErrorEvent ''Failed to send message'')]))"
proof -
  have ne: "content_in \<noteq> []" using v by (rule validMessage_nonempty)
  have sv: "message_save \<lparr>sender = uid sock, content = content_in, conversation = None, group = Some gid,
                          attachments = (case att of None \<Rightarrow> [] | Some a \<Rightarrow> a),
                          readBy = [uid sock], isDeleted = False\<rparr>
            = Some (sentMessage (uid sock) content_in None (Some gid) att)"
    using v by (simp add: message_save_valid validMessage_attachments sentMessage_def)
  have gs: "group_save (incrementAll (othersThan (uid sock) (members g)) (g\<lparr>lastMessage := Some (newMessageId e)\<rparr>))
      = Inr (incrementAll (othersThan (uid sock) (members g)) (g\<lparr>lastMessage := Some (newMessageId e)\<rparr>))"
    using cr ad by (rule group_save_ok)
  show ?thesis
    unfolding message_group_def cn_def d2_def rs_def
    using g mem ne sv gs by (simp add: Let_def case_prod_beta sentMessage_def populateSender_def)
qed

lemma message_group_store:
  assumes "groups d gid = Some g" "uid sock \<in> set (members g)" "validMessage content_in att"
    "creator g \<noteq> None" "admins g \<noteq> []"
  shows "groups (fst (message_group e live sock (Some gid) content_in att d))
           = (groups d)(gid \<mapsto> incrementAll (othersThan (uid sock) (members g))
                                   (g\<lparr>lastMessage := Some (newMessageId e)\<rparr>))"
    and "messages (fst (message_group e live sock (Some gid) content_in att d))
           = (messages d)(newMessageId e \<mapsto> sentMessage (uid sock) content_in None (Some gid) att)"
    and "notifications (fst (message_group e live sock (Some gid) content_in att d))
           = notifications d @ map (mkNotification (uid sock) (''New Message in '' @ name g)
                                      (uname sock @ '' sent a message in '' @ name g) (newMessageId e))
                                 (takeWhile (\<lambda>r. \<not> notificationFails e r) (othersThan (uid sock) (members g)))"
    and "filter (\<lambda>p. isError (snd p)) (snd (message_group e live sock (Some gid) content_in att d))
           = (if list_all (\<lambda>r. \<not> notificationFails e r) (othersThan (uid sock) (members g)) then []
              else [(sid sock, ErrorEvent ''Failed to send message'')])"
    and "filter (\<lambda>p. isMessageNew (snd p)) (snd (message_group e live sock (Some gid) content_in att d))
           = emit (io_to live (GroupRoom gid))
               (MessageNew (newMessageId e) (trim content_in) (populateSender d (uid sock)) (GroupRef gid)
                  (case att of None \<Rightarrow> [] | Some a \<Rightarrow> a) [uid sock] (now e))"
  unfolding message_group_result[OF assms]
  by (simp_all add: createNotifications_db createNotifications_ok createNotifications_no_error
        createNotifications_no_messageNew emit_def populateSender_def)

lemma notifyAndRespond_store:
  "conversations (fst (notifyAndRespond e u mk mid m rs d)) = conversations d"
  "groups (fst (notifyAndRespond e u mk mid m rs d)) = groups d"
  "messages (fst (notifyAndRespond e u mk mid m rs d)) = messages d"
  by (simp_all add: notifyAndRespond_def createAll_db case_prod_beta split: option.splits)

lemma notifyAndRespond_response:
  "snd (notifyAndRespond e u mk mid m rs d) =
     (if rs = [] then Inr (mid, m)
      else case users d u of
             None \<Rightarrow> Inl (ApiError ''Cannot read properties of null'' 500)
           | Some doc \<Rightarrow> if list_all (\<lambda>r. \<not> notificationFails e r) rs then Inr (mid, m)
                         else Inl (ApiError ''Notification validation failed'' 500))"
  by (simp add: notifyAndRespond_def createAll_ok case_prod_beta split: option.splits)

lemma notifyAndRespond_nobody: "notifyAndRespond e u mk mid m [] d = (d, Inr (mid, m))"
  by (simp add: notifyAndRespond_def)

lemma sendMessage_conversation_result:
  assumes c: "conversations d cid = Some c" and mem: "u \<in> set (participants c)"
    and v: "validMessage content_in att"
  shows "sendMessage e u content_in (Some cid) None att d =
     notifyAndRespond e u (\<lambda>n. (''New Message'', n @ '' sent you a message'')) (newMessageId e)
       (sentMessage u content_in (Some cid) None att) (othersThan u (participants c))
       (d\<lparr>messages := (messages d)(newMessageId e \<mapsto> sentMessage u content_in (Some cid) None att),
          conversations := (conversations d)(cid \<mapsto> incrementAll (othersThan u (participants c))
                                                       (c\<lparr>lastMessage := Some (newMessageId e)\<rparr>))\<rparr>)"
proof -
  have sv: "message_save \<lparr>sender = u, content = content_in, conversation = Some cid, group = None,
                          attachments = (case att of None \<Rightarrow> [] | Some a \<Rightarrow> a),
                          readBy = [u], isDeleted = False\<rparr>
            = Some (sentMessage u content_in (Some cid) None att)"
    using v by (simp add: message_save_valid validMessage_attachments sentMessage_def)
  show ?thesis
    unfolding sendMessage_def sendMessage_conversation_def
    using c mem sv by (simp add: Let_def)
qed

lemma sendMessage_group_result:
  assumes g: "groups d gid = Some g" and mem: "u \<in> set (members g)"
    and v: "validMessage content_in att" and cr: "creator g \<noteq> None" and ad: "admins g \<noteq> []"
  shows "sendMessage e u content_in None (Some gid) att d =
     notifyAndRespond e u (\<lambda>n. (''New Message in '' @ name g, n @ '' sent a message in '' @ name g))
       (newMessageId e) (sentMessage u content_in None (Some gid) att) (othersThan u (members g))
       (d\<lparr>messages := (messages d)(newMessageId e \<mapsto> sentMessage u content_in None (Some gid) att),
          groups := (groups d)(gid \<mapsto> incrementAll (othersThan u (members g))
                                         (g\<lparr>lastMessage := Some (newMessageId e)\<rparr>))\<rparr>)"
proof -
  have sv: "message_save \<lparr>sender = u, content = content_in, conversation = None, group = Some gid,
                          attachments = (case att of None \<Rightarrow> [] | Some a \<Rightarrow> a),
                          readBy = [u], isDeleted = False\<rparr>
            = Some (sentMessage u content_in None (Some gid) att)"
    using v by (simp add: message_save_valid validMessage_attachments sentMessage_def)
  have gs: "group_save (incrementAll (othersThan u (members g)) (g\<lparr>lastMessage := Some (newMessageId e)\<rparr>))
      = Inr (incrementAll (othersThan u (members g)) (g\<lparr>lastMessage := Some (newMessageId e)\<rparr>))"
    using cr ad by (rule group_save_ok)
  have nm: "name (incrementAll (othersThan u (members g)) (g\<lparr>lastMessage := Some (newMessageId e)\<rparr>)) = name g"
    by (simp add: incrementAll_group_fields)
  show ?thesis
    unfolding sendMessage_def sendMessage_group_def
    using g mem sv gs nm by (simp add: Let_def)
qed



lemma trim_hello: "trim ex_hello = ex_hello"
  by (simp add: trim_def is_space_def ex_hello_def)

lemma validMessage_hello: "validMessage ex_hello None"
  by (simp add: validMessage_def validContent_def trim_hello) (simp add: ex_hello_def)






lemma failing_recipient:
  "r \<in> set ms \<Longrightarrow> r \<noteq> u \<Longrightarrow> notificationFails e r \<Longrightarrow>
   \<not> list_all (\<lambda>r. \<not> notificationFails e r) (othersThan u ms) \<and> othersThan u ms \<noteq> []"
  by (auto simp: list_all_iff othersThan_def filter_empty_conv)

lemma errorStatus_notifyAndRespond:
  "rs \<noteq> [] \<Longrightarrow> \<not> list_all (\<lambda>r. \<not> notificationFails e r) rs \<Longrightarrow>
   errorStatus (snd (notifyAndRespond e u mk mid m rs d)) = Some 500"
  by (simp add: notifyAndRespond_response split: option.splits)

text \<open>
  Claim C5, as amended. When the store rejects the notification of some recipient after
  the message has been saved, the message stays saved and the room keeps the new
  \<^verbatim>\<open>lastMessage\<close>, but the failure reaches the sender: the socket handlers emit
  exactly one \<^verbatim>\<open>'error'\<close> event, \<^verbatim>\<open>'Failed to send message'\<close>, to the sending socket, and
  \<^verbatim>\<open>sendMessage\<close> answers with an error of status 500.
\<close>

theorem C5_notification_failure_reaches_sender:
  "(conversations d cid = Some c \<and> uid sock \<in> set (participants c) \<and> validMessage content_in att
      \<and> r \<in> set (participants c) \<and> r \<noteq> uid sock \<and> notificationFails e r
    \<longrightarrow> messages (fst (message_private e live sock (Some cid) content_in att d)) (newMessageId e)
          = Some (sentMessage (uid sock) content_in (Some cid) None att)
        \<and> map_option lastMessage (conversations (fst (message_private e live sock (Some cid) content_in att d)) cid)
          = Some (Some (newMessageId e))
        \<and> filter (\<lambda>p. isError (snd p)) (snd (message_private e live sock (Some cid) content_in att d))
          = [(sid sock, ErrorEvent ''Failed to send message'')])
   \<and> (groups d gid = Some g \<and> uid sock \<in> set (members g) \<and> validMessage content_in att
      \<and> creator g \<noteq> None \<and> admins g \<noteq> []
      \<and> r \<in> set (members g) \<and> r \<noteq> uid sock \<and> notificationFails e r
    \<longrightarrow> messages (fst (message_group e live sock (Some gid) content_in att d)) (newMessageId e)
          = Some (sentMessage (uid sock) content_in None (Some gid) att)
        \<and> map_option lastMessage (groups (fst (message_group e live sock (Some gid) content_in att d)) gid)
          = Some (Some (newMessageId e))
        \<and> filter (\<lambda>p. isError (snd p)) (snd (message_group e live sock (Some gid) content_in att d))
          = [(sid sock, ErrorEvent ''Failed to send message'')])
   \<and> (conversations d cid = Some c \<and> u \<in> set (participants c) \<and> validMessage content_in att
      \<and> r \<in> set (participants c) \<and> r \<noteq> u \<and> notificationFails e r
    \<longrightarrow> messages (fst (sendMessage e u content_in (Some cid) None att d)) (newMessageId e)
          = Some (sentMessage u content_in (Some cid) None att)
        \<and> map_option lastMessage (conversations (fst (sendMessage e u content_in (Some cid) None att d)) cid)
          = Some (Some (newMessageId e))
        \<and> errorStatus (snd (sendMessage e u content_in (Some cid) None att d)) = Some 500)
   \<and> (groups d gid = Some g \<and> u \<in> set (members g) \<and> validMessage content_in att
      \<and> creator g \<noteq> None \<and> admins g \<noteq> []
      \<and> r \<in> set (members g) \<and> r \<noteq> u \<and> notificationFails e r
    \<longrightarrow> messages (fst (sendMessage e u content_in None (Some gid) att d)) (newMessageId e)
          = Some (sentMessage u content_in None (Some gid) att)
        \<and> map_option lastMessage (groups (fst (sendMessage e u content_in None (Some gid) att d)) gid)
          = Some (Some (newMessageId e))
        \<and> errorStatus (snd (sendMessage e u content_in None (Some gid) att d)) = Some 500)"
proof -
  have p1: "messages (fst (message_private e live sock (Some cid) content_in att d)) (newMessageId e)
          = Some (sentMessage (uid sock) content_in (Some cid) None att)
        \<and> map_option lastMessage (conversations (fst (message_private e live sock (Some cid) content_in att d)) cid)
          = Some (Some (newMessageId e))
        \<and> filter (\<lambda>p. isError (snd p)) (snd (message_private e live sock (Some cid) content_in att d))
          = [(sid sock, ErrorEvent ''Failed to send message'')]"
    if h: "conversations d cid = Some c" "uid sock \<in> set (participants c)" "validMessage content_in att"
      and f: "r \<in> set (participants c)" "r \<noteq> uid sock" "notificationFails e r"
    using failing_recipient[OF f]
    by (simp add: message_private_store[OF h] incrementAll_lastMessage)
  have p2: "messages (fst (message_group e live sock (Some gid) content_in att d)) (newMessageId e)
          = Some (sentMessage (uid sock) content_in None (Some gid) att)
        \<and> map_option lastMessage (groups (fst (message_group e live sock (Some gid) content_in att d)) gid)
          = Some (Some (newMessageId e))
        \<and> filter (\<lambda>p. isError (snd p)) (snd (message_group e live sock (Some gid) content_in att d))
          = [(sid sock, ErrorEvent ''Failed to send message'')]"
    if h: "groups d gid = Some g" "uid sock \<in> set (members g)" "validMessage content_in att"
      "creator g \<noteq> None" "admins g \<noteq> []"
      and f: "r \<in> set (members g)" "r \<noteq> uid sock" "notificationFails e r"
    using failing_recipient[OF f]
    by (simp add: message_group_store[OF h] incrementAll_lastMessage)
  have p3: "messages (fst (sendMessage e u content_in (Some cid) None att d)) (newMessageId e)
          = Some (sentMessage u content_in (Some cid) None att)
        \<and> map_option lastMessage (conversations (fst (sendMessage e u content_in (Some cid) None att d)) cid)
          = Some (Some (newMessageId e))
        \<and> errorStatus (snd (sendMessage e u content_in (Some cid) None att d)) = Some 500"
    if h: "conversations d cid = Some c" "u \<in> set (participants c)" "validMessage content_in att"
      and f: "r \<in> set (participants c)" "r \<noteq> u" "notificationFails e r"
    using failing_recipient[OF f]
    by (simp add: sendMessage_conversation_result[OF h] notifyAndRespond_store
          errorStatus_notifyAndRespond incrementAll_lastMessage)
  have p4: "messages (fst (sendMessage e u content_in None (Some gid) att d)) (newMessageId e)
          = Some (sentMessage u content_in None (Some gid) att)
        \<and> map_option lastMessage (groups (fst (sendMessage e u content_in None (Some gid) att d)) gid)
          = Some (Some (newMessageId e))
        \<and> errorStatus (snd (sendMessage e u content_in None (Some gid) att d)) = Some 500"
    if h: "groups d gid = Some g" "u \<in> set (members g)" "validMessage content_in att"
      "creator g \<noteq> None" "admins g \<noteq> []"
      and f: "r \<in> set (members g)" "r \<noteq> u" "notificationFails e r"
    using failing_recipient[OF f]
    by (simp add: sendMessage_group_result[OF h] notifyAndRespond_store
          errorStatus_notifyAndRespond incrementAll_lastMessage)
  show ?thesis using p1 p2 p3 p4 by blast
qed

lemma ex_facts:
  "conversations ex_db 20 = Some ex_conversation" "groups ex_db 10 = Some ex_group"
  "groups ex_db 12 = Some ex_group_solo"
  "uid ex_sock_a = 1" "sid ex_sock_a = 100" "uname ex_sock_a = ''alice''"
  "participants ex_conversation = [1, 2]" "members ex_group = [1, 2]" "members ex_group_solo = [1]"
  "creator ex_group = Some 1" "admins ex_group = [Some 1]"
  "creator ex_group_solo = Some 1" "admins ex_group_solo = [Some 1]"
  "lastMessage ex_group_solo = None" "name ex_group_solo = ''solo''"
  "newMessageId ex_env = 31" "newMessageId ex_env_failing = 31" "now ex_env = 5"
  "notificationFails ex_env_failing 2" "users ex_db 1 \<noteq> None"
  by (simp_all add: ex_db_def ex_conversation_def ex_group_def ex_group_solo_def ex_sock_a_def
        ex_env_def ex_env_failing_def ex_users_def)

theorem C5_witness:
  "conversations ex_db 20 = Some ex_conversation \<and> uid ex_sock_a \<in> set (participants ex_conversation)
   \<and> validMessage ex_hello None \<and> 2 \<in> set (participants ex_conversation) \<and> 2 \<noteq> uid ex_sock_a
   \<and> notificationFails ex_env_failing 2
   \<and> groups ex_db 10 = Some ex_group \<and> uid ex_sock_a \<in> set (members ex_group)
   \<and> creator ex_group \<noteq> None \<and> admins ex_group \<noteq> [] \<and> 2 \<in> set (members ex_group)
   \<and> messages (fst (message_private ex_env_failing ex_live ex_sock_a (Some 20) ex_hello None ex_db)) 31
       = Some (sentMessage 1 ex_hello (Some 20) None None)
   \<and> filter (\<lambda>p. isError (snd p)) (snd (message_private ex_env_failing ex_live ex_sock_a (Some 20) ex_hello None ex_db))
       = [(100, ErrorEvent ''Failed to send message'')]
   \<and> filter (\<lambda>p. isError (snd p)) (snd (message_group ex_env_failing ex_live ex_sock_a (Some 10) ex_hello None ex_db))
       = [(100, ErrorEvent ''Failed to send message'')]
   \<and> errorStatus (snd (sendMessage ex_env_failing 1 ex_hello (Some 20) None None ex_db)) = Some 500
   \<and> errorStatus (snd (sendMessage ex_env_failing 1 ex_hello None (Some 10) None ex_db)) = Some 500"
  using C5_notification_failure_reaches_sender[where d = ex_db and cid = 20 and c = ex_conversation
      and sock = ex_sock_a and content_in = ex_hello and r = 2 and e = ex_env_failing and live = ex_live
      and att = None and gid = 10 and g = ex_group and u = 1]
    ex_facts validMessage_hello
  by simp

text \<open>
  Claim C5 as stated fails. With bob's notification rejected, alice's message 31 to
  conversation 20 is saved, yet her socket receives \<^verbatim>\<open>'Failed to send message'\<close> on the
  socket path, and the HTTP path answers with status 500 instead of the message.
\<close>

theorem C5_counterexample:
  "notificationFails ex_env_failing 2
   \<and> messages (fst (message_private ex_env_failing ex_live ex_sock_a (Some 20) ex_hello None ex_db)) 31
       = Some \<lparr>sender = 1, content = ex_hello, conversation = Some 20, group = None,
               attachments = [], readBy = [1], isDeleted = False\<rparr>
   \<and> (100, ErrorEvent ''Failed to send message'')
       \<in> set (snd (message_private ex_env_failing ex_live ex_sock_a (Some 20) ex_hello None ex_db))
   \<and> messages (fst (sendMessage ex_env_failing 1 ex_hello (Some 20) None None ex_db)) 31
       = Some \<lparr>sender = 1, content = ex_hello, conversation = Some 20, group = None,
               attachments = [], readBy = [1], isDeleted = False\<rparr>
   \<and> errorStatus (snd (sendMessage ex_env_failing 1 ex_hello (Some 20) None None ex_db)) = Some 500"
proof -
  have h: "conversations ex_db 20 = Some ex_conversation" "uid ex_sock_a \<in> set (participants ex_conversation)"
    "1 \<in> set (participants ex_conversation)"
    using ex_facts by simp_all
  have a: "filter (\<lambda>p. isError (snd p)) (snd (message_private ex_env_failing ex_live ex_sock_a (Some 20) ex_hello None ex_db))
      = [(100, ErrorEvent ''Failed to send message'')]"
    using ex_facts by (simp add: message_private_store(4)[OF h(1,2) validMessage_hello] othersThan_def)
  have b: "(100, ErrorEvent ''Failed to send message'')
       \<in> set (filter (\<lambda>p. isError (snd p)) (snd (message_private ex_env_failing ex_live ex_sock_a (Some 20) ex_hello None ex_db)))"
    unfolding a by simp
  have c: "messages (fst (message_private ex_env_failing ex_live ex_sock_a (Some 20) ex_hello None ex_db)) 31
       = Some \<lparr>sender = 1, content = ex_hello, conversation = Some 20, group = None,
               attachments = [], readBy = [1], isDeleted = False\<rparr>"
    using ex_facts by (simp add: message_private_store(2)[OF h(1,2) validMessage_hello] sentMessage_def trim_hello)
  have d: "messages (fst (sendMessage ex_env_failing 1 ex_hello (Some 20) None None ex_db)) 31
       = Some \<lparr>sender = 1, content = ex_hello, conversation = Some 20, group = None,
               attachments = [], readBy = [1], isDeleted = False\<rparr>"
    unfolding sendMessage_conversation_result[OF h(1,3) validMessage_hello]
    using ex_facts by (simp add: notifyAndRespond_store sentMessage_def trim_hello)
  have e: "errorStatus (snd (sendMessage ex_env_failing 1 ex_hello (Some 20) None None ex_db)) = Some 500"
    unfolding sendMessage_conversation_result[OF h(1,3) validMessage_hello]
    using ex_facts by (simp add: notifyAndRespond_response othersThan_def split: option.splits)
  show ?thesis using b c d e ex_facts by simp
qed

lemma othersThan_alone: "set ms = {u} \<Longrightarrow> othersThan u ms = []"
  by (auto simp: othersThan_def filter_empty_conv)

lemma message_private_alone:
  assumes c: "conversations d cid = Some c" and al: "set (participants c) = {uid sock}"
    and v: "validMessage content_in att"
  shows "message_private e live sock (Some cid) content_in att d =
     (d\<lparr>messages := (messages d)(newMessageId e \<mapsto> sentMessage (uid sock) content_in (Some cid) None att),
        conversations := (conversations d)(cid \<mapsto> c\<lparr>lastMessage := Some (newMessageId e)\<rparr>)\<rparr>,
      emit (io_to live (ConversationRoom cid))
        (MessageNew (newMessageId e) (trim content_in) (populateSender d (uid sock)) (ConversationRef cid)
           (case att of None \<Rightarrow> [] | Some a \<Rightarrow> a) [uid sock] (now e)))"
proof -
  have mem: "uid sock \<in> set (participants c)" using al by simp
  show ?thesis
    unfolding message_private_result[OF c mem v]
    by (simp add: othersThan_alone[OF al] incrementAll_Nil populateSender_def)
qed

lemma message_group_alone:
  assumes g: "groups d gid = Some g" and al: "set (members g) = {uid sock}"
    and v: "validMessage content_in att" and cr: "creator g \<noteq> None" and ad: "admins g \<noteq> []"
  shows "message_group e live sock (Some gid) content_in att d =
     (d\<lparr>messages := (messages d)(newMessageId e \<mapsto> sentMessage (uid sock) content_in None (Some gid) att),
        groups := (groups d)(gid \<mapsto> g\<lparr>lastMessage := Some (newMessageId e)\<rparr>)\<rparr>,
      emit (io_to live (GroupRoom gid))
        (MessageNew (newMessageId e) (trim content_in) (populateSender d (uid sock)) (GroupRef gid)
           (case att of None \<Rightarrow> [] | Some a \<Rightarrow> a) [uid sock] (now e)))"
proof -
  have mem: "uid sock \<in> set (members g)" using al by simp
  show ?thesis
    unfolding message_group_result[OF g mem v cr ad]
    by (simp add: othersThan_alone[OF al] incrementAll_Nil populateSender_def)
qed

lemma sendMessage_conversation_alone:
  assumes c: "conversations d cid = Some c" and al: "set (participants c) = {u}"
    and v: "validMessage content_in att"
  shows "sendMessage e u content_in (Some cid) None att d =
     (d\<lparr>messages := (messages d)(newMessageId e \<mapsto> sentMessage u content_in (Some cid) None att),
        conversations := (conversations d)(cid \<mapsto> c\<lparr>lastMessage := Some (newMessageId e)\<rparr>)\<rparr>,
      Inr (newMessageId e, sentMessage u content_in (Some cid) None att))"
proof -
  have mem: "u \<in> set (participants c)" using al by simp
  show ?thesis
    unfolding sendMessage_conversation_result[OF c mem v]
    by (simp add: othersThan_alone[OF al] incrementAll_Nil notifyAndRespond_nobody)
qed

lemma sendMessage_group_alone:
  assumes g: "groups d gid = Some g" and al: "set (members g) = {u}"
    and v: "validMessage content_in att" and cr: "creator g \<noteq> None" and ad: "admins g \<noteq> []"
  shows "sendMessage e u content_in None (Some gid) att d =
     (d\<lparr>messages := (messages d)(newMessageId e \<mapsto> sentMessage u content_in None (Some gid) att),
        groups := (groups d)(gid \<mapsto> g\<lparr>lastMessage := Some (newMessageId e)\<rparr>)\<rparr>,
      Inr (newMessageId e, sentMessage u content_in None (Some gid) att))"
proof -
  have mem: "u \<in> set (members g)" using al by simp
  show ?thesis
    unfolding sendMessage_group_result[OF g mem v cr ad]
    by (simp add: othersThan_alone[OF al] incrementAll_Nil notifyAndRespond_nobody)
qed

text \<open>
  Claim C6, as amended. A send into a room whose only member is the sender succeeds: the
  message is saved, no unread counter changes and no notification is created; the
  room's \<^verbatim>\<open>lastMessage\<close> is still set to the new message, and the socket handlers still
  emit \<^verbatim>\<open>message:new\<close> to every socket that has joined the room, and nothing else. The
  HTTP path answers with the created message.
\<close>

theorem C6_send_to_room_of_sender_alone:
  "(conversations d cid = Some c \<and> set (participants c) = {uid sock} \<and> validMessage content_in att
    \<longrightarrow> message_private e live sock (Some cid) content_in att d =
         (d\<lparr>messages := (messages d)(newMessageId e \<mapsto> sentMessage (uid sock) content_in (Some cid) None att),
            conversations := (conversations d)(cid \<mapsto> c\<lparr>lastMessage := Some (newMessageId e)\<rparr>)\<rparr>,
          emit (io_to live (ConversationRoom cid))
            (MessageNew (newMessageId e) (trim content_in) (populateSender d (uid sock)) (ConversationRef cid)
               (case att of None \<Rightarrow> [] | Some a \<Rightarrow> a) [uid sock] (now e))))
   \<and> (groups d gid = Some g \<and> set (members g) = {uid sock} \<and> validMessage content_in att
       \<and> creator g \<noteq> None \<and> admins g \<noteq> []
    \<longrightarrow> message_group e live sock (Some gid) content_in att d =
         (d\<lparr>messages := (messages d)(newMessageId e \<mapsto> sentMessage (uid sock) content_in None (Some gid) att),
            groups := (groups d)(gid \<mapsto> g\<lparr>lastMessage := Some (newMessageId e)\<rparr>)\<rparr>,
          emit (io_to live (GroupRoom gid))
            (MessageNew (newMessageId e) (trim content_in) (populateSender d (uid sock)) (GroupRef gid)
               (case att of None \<Rightarrow> [] | Some a \<Rightarrow> a) [uid sock] (now e))))
   \<and> (conversations d cid = Some c \<and> set (participants c) = {u} \<and> validMessage content_in att
    \<longrightarrow> sendMessage e u content_in (Some cid) None att d =
         (d\<lparr>messages := (messages d)(newMessageId e \<mapsto> sentMessage u content_in (Some cid) None att),
            conversations := (conversations d)(cid \<mapsto> c\<lparr>lastMessage := Some (newMessageId e)\<rparr>)\<rparr>,
          Inr (newMessageId e, sentMessage u content_in (Some cid) None att)))
   \<and> (groups d gid = Some g \<and> set (members g) = {u} \<and> validMessage content_in att
       \<and> creator g \<noteq> None \<and> admins g \<noteq> []
    \<longrightarrow> sendMessage e u content_in None (Some gid) att d =
         (d\<lparr>messages := (messages d)(newMessageId e \<mapsto> sentMessage u content_in None (Some gid) att),
            groups := (groups d)(gid \<mapsto> g\<lparr>lastMessage := Some (newMessageId e)\<rparr>)\<rparr>,
          Inr (newMessageId e, sentMessage u content_in None (Some gid) att)))"
  using message_private_alone[of d cid c sock content_in att e live]
    message_group_alone[of d gid g sock content_in att e live]
    sendMessage_conversation_alone[of d cid c u content_in att e]
    sendMessage_group_alone[of d gid g u content_in att e]
  by blast

lemma ex_io_group12: "io_to ex_live (GroupRoom 12) = [100, 101]"
  by (simp add: io_to_def ex_live_def ex_sock_a_def ex_sock_a2_def ex_sock_b_def joinedRooms_def
        ex_db_def ex_group_solo_def)

lemma ex_alone:
  "conversations ex_db 21 = Some ex_conversation_self" "set (participants ex_conversation_self) = {1}"
  "set (members ex_group_solo) = {1}" "lastMessage ex_conversation_self = None"
  by (simp_all add: ex_db_def ex_conversation_self_def ex_group_solo_def)

theorem C6_witness:
  "conversations ex_db 21 = Some ex_conversation_self \<and> set (participants ex_conversation_self) = {uid ex_sock_a}
   \<and> validMessage ex_hello None
   \<and> groups ex_db 12 = Some ex_group_solo \<and> set (members ex_group_solo) = {uid ex_sock_a}
   \<and> creator ex_group_solo \<noteq> None \<and> admins ex_group_solo \<noteq> []
   \<and> message_private ex_env ex_live ex_sock_a (Some 21) ex_hello None ex_db =
       (ex_db\<lparr>messages := (messages ex_db)(31 \<mapsto> sentMessage 1 ex_hello (Some 21) None None),
          conversations := (conversations ex_db)(21 \<mapsto> ex_conversation_self\<lparr>lastMessage := Some 31\<rparr>)\<rparr>,
        emit (io_to ex_live (ConversationRoom 21))
          (MessageNew 31 (trim ex_hello) (populateSender ex_db 1) (ConversationRef 21) [] [1] 5))
   \<and> message_group ex_env ex_live ex_sock_a (Some 12) ex_hello None ex_db =
       (ex_db\<lparr>messages := (messages ex_db)(31 \<mapsto> sentMessage 1 ex_hello None (Some 12) None),
          groups := (groups ex_db)(12 \<mapsto> ex_group_solo\<lparr>lastMessage := Some 31\<rparr>)\<rparr>,
        emit (io_to ex_live (GroupRoom 12))
          (MessageNew 31 (trim ex_hello) (populateSender ex_db 1) (GroupRef 12) [] [1] 5))
   \<and> sendMessage ex_env 1 ex_hello (Some 21) None None ex_db =
       (ex_db\<lparr>messages := (messages ex_db)(31 \<mapsto> sentMessage 1 ex_hello (Some 21) None None),
          conversations := (conversations ex_db)(21 \<mapsto> ex_conversation_self\<lparr>lastMessage := Some 31\<rparr>)\<rparr>,
        Inr (31, sentMessage 1 ex_hello (Some 21) None None))
   \<and> sendMessage ex_env 1 ex_hello None (Some 12) None ex_db =
       (ex_db\<lparr>messages := (messages ex_db)(31 \<mapsto> sentMessage 1 ex_hello None (Some 12) None),
          groups := (groups ex_db)(12 \<mapsto> ex_group_solo\<lparr>lastMessage := Some 31\<rparr>)\<rparr>,
        Inr (31, sentMessage 1 ex_hello None (Some 12) None))"
  using C6_send_to_room_of_sender_alone[where d = ex_db and cid = 21 and c = ex_conversation_self
      and sock = ex_sock_a and content_in = ex_hello and e = ex_env and live = ex_live and att = None
      and gid = 12 and g = ex_group_solo and u = 1]
    ex_facts ex_alone validMessage_hello
  by simp

text \<open>
  Claim C6 as stated fails: updating the room and delivering live are not no-ops. In
  group 12, whose only member is alice, her send changes \<^verbatim>\<open>lastMessage\<close> from nothing
  to message 31 on both paths, and the socket handler delivers \<^verbatim>\<open>message:new\<close> to both
  of her sockets.
\<close>

theorem C6_counterexample:
  "map_option members (groups ex_db 12) = Some [1]
   \<and> map_option lastMessage (groups ex_db 12) = Some None
   \<and> map_option lastMessage (groups (fst (message_group ex_env ex_live ex_sock_a (Some 12) ex_hello None ex_db)) 12)
       = Some (Some 31)
   \<and> snd (message_group ex_env ex_live ex_sock_a (Some 12) ex_hello None ex_db)
       = [(100, MessageNew 31 ex_hello (Some (1, ''alice'', ''a.png'')) (GroupRef 12) [] [1] 5),
          (101, MessageNew 31 ex_hello (Some (1, ''alice'', ''a.png'')) (GroupRef 12) [] [1] 5)]
   \<and> map_option lastMessage (groups (fst (sendMessage ex_env 1 ex_hello None (Some 12) None ex_db)) 12)
       = Some (Some 31)"
proof -
  have h: "groups ex_db 12 = Some ex_group_solo" "set (members ex_group_solo) = {uid ex_sock_a}"
    "set (members ex_group_solo) = {1}" "creator ex_group_solo \<noteq> None" "admins ex_group_solo \<noteq> []"
    using ex_facts ex_alone by simp_all
  have p: "populateSender ex_db 1 = Some (1, ''alice'', ''a.png'')"
    by (simp add: populateSender_def ex_db_def ex_users_def)
  have a: "map_option lastMessage (groups (fst (message_group ex_env ex_live ex_sock_a (Some 12) ex_hello None ex_db)) 12)
       = Some (Some 31)"
    unfolding message_group_alone[OF h(1,2) validMessage_hello h(4,5)] using ex_facts by simp
  have b: "snd (message_group ex_env ex_live ex_sock_a (Some 12) ex_hello None ex_db)
       = [(100, MessageNew 31 ex_hello (Some (1, ''alice'', ''a.png'')) (GroupRef 12) [] [1] 5),
          (101, MessageNew 31 ex_hello (Some (1, ''alice'', ''a.png'')) (GroupRef 12) [] [1] 5)]"
    unfolding message_group_alone[OF h(1,2) validMessage_hello h(4,5)]
    using ex_facts p by (simp add: ex_io_group12 emit_def trim_hello)
  have c: "map_option lastMessage (groups (fst (sendMessage ex_env 1 ex_hello None (Some 12) None ex_db)) 12)
       = Some (Some 31)"
    unfolding sendMessage_group_alone[OF h(1,3) validMessage_hello h(4,5)] using ex_facts by simp
  show ?thesis using a b c ex_facts by simp
qed

subsection \<open>Read receipts, typing updates and rejected events\<close>

lemma emit_mem: "((i, ev) \<in> set (emit targets ev0)) = (ev = ev0 \<and> i \<in> set targets)"
  by (auto simp: emit_def)

lemma io_to_mem: "(i \<in> set (io_to live r)) = (\<exists>c\<in>set live. sid c = i \<and> rooms c r)"
  by (auto simp: io_to_def)

lemma socket_to_mem:
  "(i \<in> set (socket_to live sock r)) = (i \<noteq> sid sock \<and> (\<exists>c\<in>set live. sid c = i \<and> rooms c r))"
  by (auto simp: socket_to_def io_to_mem)

lemma message_read_conversation:
  "ids \<noteq> [] \<Longrightarrow> snd (message_read live sock (Some ids) (Some cid) gid d)
     = emit (io_to live (ConversationRoom cid)) (MessageRead (uid sock) ids (ConversationRef cid))"
  by (simp add: message_read_def Let_def)

lemma message_read_group:
  "ids \<noteq> [] \<Longrightarrow> snd (message_read live sock (Some ids) None (Some gid) d)
     = emit (io_to live (GroupRoom gid)) (MessageRead (uid sock) ids (GroupRef gid))"
  by (simp add: message_read_def Let_def)

text \<open>
  Claim C3, as amended. A \<^verbatim>\<open>message:read\<close> with a non-empty list of ids that names a
  conversation (or, without a conversation, a group) delivers the read receipt
  \<^verbatim>\<open>{reader, messageIds, roomRef}\<close> to exactly the connected sockets that have joined the
  room, and nothing else; a socket of the reader that has joined the room, the
  acknowledging socket included, receives the receipt as well.
\<close>

theorem C3_read_receipt_reaches_whole_room:
  "(ids \<noteq> [] \<longrightarrow>
      ((i, ev) \<in> set (snd (message_read live sock (Some ids) (Some cid) groupId d)))
        = (ev = MessageRead (uid sock) ids (ConversationRef cid)
           \<and> (\<exists>c\<in>set live. sid c = i \<and> rooms c (ConversationRoom cid))))
   \<and> (ids \<noteq> [] \<longrightarrow>
      ((i, ev) \<in> set (snd (message_read live sock (Some ids) None (Some gid) d)))
        = (ev = MessageRead (uid sock) ids (GroupRef gid)
           \<and> (\<exists>c\<in>set live. sid c = i \<and> rooms c (GroupRoom gid))))
   \<and> (ids \<noteq> [] \<and> sock \<in> set live \<and> rooms sock (ConversationRoom cid) \<longrightarrow>
      (sid sock, MessageRead (uid sock) ids (ConversationRef cid))
        \<in> set (snd (message_read live sock (Some ids) (Some cid) groupId d)))
   \<and> (ids \<noteq> [] \<and> sock \<in> set live \<and> rooms sock (GroupRoom gid) \<longrightarrow>
      (sid sock, MessageRead (uid sock) ids (GroupRef gid))
        \<in> set (snd (message_read live sock (Some ids) None (Some gid) d)))"
proof -
  have a: "((i, ev) \<in> set (snd (message_read live sock (Some ids) (Some cid) groupId d)))
        = (ev = MessageRead (uid sock) ids (ConversationRef cid)
           \<and> (\<exists>c\<in>set live. sid c = i \<and> rooms c (ConversationRoom cid)))" if "ids \<noteq> []"
    by (simp add: message_read_conversation[OF that] emit_mem io_to_mem)
  have b: "((i, ev) \<in> set (snd (message_read live sock (Some ids) None (Some gid) d)))
        = (ev = MessageRead (uid sock) ids (GroupRef gid)
           \<and> (\<exists>c\<in>set live. sid c = i \<and> rooms c (GroupRoom gid)))" if "ids \<noteq> []"
    by (simp add: message_read_group[OF that] emit_mem io_to_mem)
  have c: "(sid sock, MessageRead (uid sock) ids (ConversationRef cid))
        \<in> set (snd (message_read live sock (Some ids) (Some cid) groupId d))"
    if "ids \<noteq> []" "sock \<in> set live" "rooms sock (ConversationRoom cid)"
    using that(2,3) by (auto simp: message_read_conversation[OF that(1)] emit_mem io_to_mem)
  have e: "(sid sock, MessageRead (uid sock) ids (GroupRef gid))
        \<in> set (snd (message_read live sock (Some ids) None (Some gid) d))"
    if "ids \<noteq> []" "sock \<in> set live" "rooms sock (GroupRoom gid)"
    using that(2,3) by (auto simp: message_read_group[OF that(1)] emit_mem io_to_mem)
  show ?thesis using a b c e by blast
qed

lemma ex_rooms:
  "ex_sock_a \<in> set ex_live" "ex_sock_a2 \<in> set ex_live" "ex_sock_b \<in> set ex_live"
  "rooms ex_sock_a (ConversationRoom 20)" "rooms ex_sock_a2 (ConversationRoom 20)"
  "rooms ex_sock_b (ConversationRoom 20)"
  "rooms ex_sock_a (GroupRoom 10)" "rooms ex_sock_a2 (GroupRoom 10)" "rooms ex_sock_b (GroupRoom 10)"
  "sid ex_sock_a = 100" "sid ex_sock_a2 = 101" "sid ex_sock_b = 200"
  "uid ex_sock_a = 1" "uid ex_sock_a2 = 1" "uid ex_sock_b = 2" "uname ex_sock_a = ''alice''"
  by (simp_all add: ex_live_def ex_sock_a_def ex_sock_a2_def ex_sock_b_def joinedRooms_def ex_db_def
        ex_conversation_def ex_group_def)

theorem C3_witness:
  "[30] \<noteq> ([] :: msg_id list) \<and> ex_sock_a \<in> set ex_live \<and> rooms ex_sock_a (ConversationRoom 20)
   \<and> rooms ex_sock_a (GroupRoom 10)
   \<and> (100, MessageRead 1 [30] (ConversationRef 20))
        \<in> set (snd (message_read ex_live ex_sock_a (Some [30]) (Some 20) None ex_db))
   \<and> (100, MessageRead 1 [30] (GroupRef 10))
        \<in> set (snd (message_read ex_live ex_sock_a (Some [30]) None (Some 10) ex_db))
   \<and> (200, MessageRead 1 [30] (ConversationRef 20))
        \<in> set (snd (message_read ex_live ex_sock_a (Some [30]) (Some 20) None ex_db))"
proof -
  have "\<exists>c\<in>set ex_live. sid c = 200 \<and> rooms c (ConversationRoom 20)"
    using ex_rooms by blast
  then show ?thesis
    using C3_read_receipt_reaches_whole_room[of "[30]" 200 "MessageRead 1 [30] (ConversationRef 20)" ex_live ex_sock_a 20 None ex_db 10]
      ex_rooms
    by simp
qed

text \<open>
  Claim C3 as stated fails: the reader is not excluded. When alice acknowledges message
  30 of conversation 20 from socket 100, the receipt goes to her own sockets 100 and 101
  as well as to bob's socket 200.
\<close>

theorem C3_counterexample:
  "uid ex_sock_a = 1 \<and> sid ex_sock_a = 100 \<and> uid ex_sock_a2 = 1 \<and> sid ex_sock_a2 = 101
   \<and> snd (message_read ex_live ex_sock_a (Some [30]) (Some 20) None ex_db)
       = [(100, MessageRead 1 [30] (ConversationRef 20)),
          (101, MessageRead 1 [30] (ConversationRef 20)),
          (200, MessageRead 1 [30] (ConversationRef 20))]"
  using ex_rooms
  by (simp add: message_read_conversation emit_def io_to_def ex_live_def)

lemma typing_start_conversation:
  "snd (typing_start live sock (Some cid) gid d)
     = emit (socket_to live sock (ConversationRoom cid))
         (TypingUpdate (uid sock) (uname sock) True (ConversationRef cid))"
  by (simp add: typing_start_def)

lemma typing_start_group:
  "snd (typing_start live sock None (Some gid) d)
     = emit (socket_to live sock (GroupRoom gid))
         (TypingUpdate (uid sock) (uname sock) True (GroupRef gid))"
  by (simp add: typing_start_def)

lemma typing_stop_conversation:
  "snd (typing_stop live sock (Some cid) gid d)
     = emit (socket_to live sock (ConversationRoom cid))
         (TypingUpdate (uid sock) (uname sock) False (ConversationRef cid))"
  by (simp add: typing_stop_def)

lemma typing_stop_group:
  "snd (typing_stop live sock None (Some gid) d)
     = emit (socket_to live sock (GroupRoom gid))
         (TypingUpdate (uid sock) (uname sock) False (GroupRef gid))"
  by (simp add: typing_stop_def)

lemma typing_store:
  "fst (typing_start live sock cid gid d) = d" "fst (typing_stop live sock cid gid d) = d"
  by (simp_all add: typing_start_def typing_stop_def split: option.splits)

lemma typing_no_echo:
  "(sid sock, ev) \<notin> set (snd (typing_start live sock cid gid d))"
  "(sid sock, ev) \<notin> set (snd (typing_stop live sock cid gid d))"
  by (simp_all add: typing_start_def typing_stop_def emit_mem socket_to_mem split: option.splits)

text \<open>
  Claim C8, as amended. \<^verbatim>\<open>typing:start\<close> and \<^verbatim>\<open>typing:stop\<close> leave the store as it is
  (nothing is persisted, no notification is created) and deliver
  \<^verbatim>\<open>{user, isTyping, roomRef}\<close> to exactly the connected sockets that have joined the room
  and are not the emitting socket; the emitting socket never receives its own typing
  update. Other sockets of the same user are not excluded.
\<close>

theorem C8_typing_relay_excludes_emitting_socket:
  "fst (typing_start live sock conversationId groupId d) = d
   \<and> fst (typing_stop live sock conversationId groupId d) = d
   \<and> ((i, ev) \<in> set (snd (typing_start live sock (Some cid) groupId d)))
       = (ev = TypingUpdate (uid sock) (uname sock) True (ConversationRef cid)
          \<and> i \<noteq> sid sock \<and> (\<exists>c\<in>set live. sid c = i \<and> rooms c (ConversationRoom cid)))
   \<and> ((i, ev) \<in> set (snd (typing_start live sock None (Some gid) d)))
       = (ev = TypingUpdate (uid sock) (uname sock) True (GroupRef gid)
          \<and> i \<noteq> sid sock \<and> (\<exists>c\<in>set live. sid c = i \<and> rooms c (GroupRoom gid)))
   \<and> ((i, ev) \<in> set (snd (typing_stop live sock (Some cid) groupId d)))
       = (ev = TypingUpdate (uid sock) (uname sock) False (ConversationRef cid)
          \<and> i \<noteq> sid sock \<and> (\<exists>c\<in>set live. sid c = i \<and> rooms c (ConversationRoom cid)))
   \<and> ((i, ev) \<in> set (snd (typing_stop live sock None (Some gid) d)))
       = (ev = TypingUpdate (uid sock) (uname sock) False (GroupRef gid)
          \<and> i \<noteq> sid sock \<and> (\<exists>c\<in>set live. sid c = i \<and> rooms c (GroupRoom gid)))
   \<and> (sid sock, ev) \<notin> set (snd (typing_start live sock conversationId groupId d))
   \<and> (sid sock, ev) \<notin> set (snd (typing_stop live sock conversationId groupId d))"
  by (simp add: typing_store typing_no_echo typing_start_conversation typing_start_group
        typing_stop_conversation typing_stop_group emit_mem socket_to_mem)

theorem C8_witness:
  "fst (typing_start ex_live ex_sock_a (Some 20) None ex_db) = ex_db
   \<and> ((200, TypingUpdate 1 ''alice'' True (ConversationRef 20))
        \<in> set (snd (typing_start ex_live ex_sock_a (Some 20) None ex_db)))
   \<and> ((200, TypingUpdate 1 ''alice'' False (ConversationRef 20))
        \<in> set (snd (typing_stop ex_live ex_sock_a (Some 20) None ex_db)))
   \<and> (100, TypingUpdate 1 ''alice'' True (ConversationRef 20))
        \<notin> set (snd (typing_start ex_live ex_sock_a (Some 20) None ex_db))"
proof -
  have "\<exists>c\<in>set ex_live. sid c = 200 \<and> rooms c (ConversationRoom 20)"
    using ex_rooms by blast
  then show ?thesis
    using C8_typing_relay_excludes_emitting_socket[of ex_live ex_sock_a "Some 20" None ex_db 200
              "TypingUpdate 1 ''alice'' True (ConversationRef 20)" 20 10]
      C8_typing_relay_excludes_emitting_socket[of ex_live ex_sock_a "Some 20" None ex_db 200
              "TypingUpdate 1 ''alice'' False (ConversationRef 20)" 20 10]
      C8_typing_relay_excludes_emitting_socket[of ex_live ex_sock_a "Some 20" None ex_db 100
              "TypingUpdate 1 ''alice'' True (ConversationRef 20)" 20 10]
      ex_rooms
    by simp
qed

text \<open>
  Claim C8 as stated fails for a user with several connections: when alice starts typing
  on socket 100, her other socket 101 receives the typing update together with bob's
  socket 200.
\<close>

theorem C8_counterexample:
  "uid ex_sock_a = 1 \<and> sid ex_sock_a = 100 \<and> uid ex_sock_a2 = 1 \<and> sid ex_sock_a2 = 101
   \<and> snd (typing_start ex_live ex_sock_a (Some 20) None ex_db)
       = [(101, TypingUpdate 1 ''alice'' True (ConversationRef 20)),
          (200, TypingUpdate 1 ''alice'' True (ConversationRef 20))]"
  using ex_rooms
  by (simp add: typing_start_conversation emit_def socket_to_def io_to_def ex_live_def)

lemma oneErrorTo_single: "oneErrorTo s [(s, ErrorEvent msg)]"
  by simp

lemma message_private_rejected:
  assumes "private_rejects sock conversationId content_in att d"
  shows "fst (message_private e live sock conversationId content_in att d) = d
     \<and> oneErrorTo (sid sock) (snd (message_private e live sock conversationId content_in att d))"
proof (cases conversationId)
  case None
  then show ?thesis by (simp add: message_private_def)
next
  case (Some cid)
  show ?thesis
  proof (cases "content_in = []")
    case True
    with Some show ?thesis by (simp add: message_private_def)
  next
    case ne: False
    show ?thesis
    proof (cases "conversations d cid")
      case None
      with Some ne show ?thesis by (simp add: message_private_def)
    next
      case c: (Some c)
      show ?thesis
      proof (cases "uid sock \<in> set (participants c)")
        case False
        with Some ne c show ?thesis by (simp add: message_private_def)
      next
        case True
        with assms Some ne c have "\<not> validMessage content_in att"
          by (simp add: private_rejects_def)
        then have "message_save \<lparr>sender = uid sock, content = content_in, conversation = Some cid,
                     group = None, attachments = (case att of None \<Rightarrow> [] | Some a \<Rightarrow> a),
                     readBy = [uid sock], isDeleted = False\<rparr> = None"
          by (simp add: message_save_invalid validMessage_attachments)
        with Some ne c True show ?thesis by (simp add: message_private_def)
      qed
    qed
  qed
qed

lemma message_group_rejected:
  assumes "group_rejects sock groupId content_in att d"
  shows "fst (message_group e live sock groupId content_in att d) = d
     \<and> oneErrorTo (sid sock) (snd (message_group e live sock groupId content_in att d))"
proof (cases groupId)
  case None
  then show ?thesis by (simp add: message_group_def)
next
  case (Some gid)
  show ?thesis
  proof (cases "content_in = []")
    case True
    with Some show ?thesis by (simp add: message_group_def)
  next
    case ne: False
    show ?thesis
    proof (cases "groups d gid")
      case None
      with Some ne show ?thesis by (simp add: message_group_def)
    next
      case g: (Some g)
      show ?thesis
      proof (cases "uid sock \<in> set (members g)")
        case False
        with Some ne g show ?thesis by (simp add: message_group_def)
      next
        case True
        with assms Some ne g have "\<not> validMessage content_in att"
          by (simp add: group_rejects_def)
        then have "message_save \<lparr>sender = uid sock, content = content_in, conversation = None,
                     group = Some gid, attachments = (case att of None \<Rightarrow> [] | Some a \<Rightarrow> a),
                     readBy = [uid sock], isDeleted = False\<rparr> = None"
          by (simp add: message_save_invalid validMessage_attachments)
        with Some ne g True show ?thesis by (simp add: message_group_def)
      qed
    qed
  qed
qed

text \<open>
  Claim C4, as amended. A \<^verbatim>\<open>message:private\<close> or \<^verbatim>\<open>message:group\<close> event that is rejected
  for validation, authorization or a missing room, a \<^verbatim>\<open>status:change\<close> with an invalid
  status, a \<^verbatim>\<open>status:get\<close> without a list of ids and a \<^verbatim>\<open>presence:history\<close> without a
  known user id each leave the store unchanged and emit exactly one \<^verbatim>\<open>'error'\<close> event,
  to the originating socket. A \<^verbatim>\<open>message:read\<close> without a non-empty list of ids and a
  typing event without a room reference change nothing and emit nothing.
\<close>

theorem C4_rejected_events_and_errors:
  "(private_rejects sock conversationId content_in att d \<longrightarrow>
      fst (message_private e live sock conversationId content_in att d) = d
      \<and> oneErrorTo (sid sock) (snd (message_private e live sock conversationId content_in att d)))
   \<and> (group_rejects sock groupId content_in att d \<longrightarrow>
      fst (message_group e live sock groupId content_in att d) = d
      \<and> oneErrorTo (sid sock) (snd (message_group e live sock groupId content_in att d)))
   \<and> (status_in \<notin> set [''online'', ''offline'', ''away'', ''busy''] \<longrightarrow>
      status_change e live sock status_in d = (d, [(sid sock, ErrorEvent ''Invalid status'')]))
   \<and> status_get sock None d = (d, [(sid sock, ErrorEvent ''Invalid user IDs'')])
   \<and> presence_history sock None d = (d, [(sid sock, ErrorEvent ''User ID is required'')])
   \<and> (users d i = None \<longrightarrow>
      presence_history sock (Some i) d = (d, [(sid sock, ErrorEvent ''User not found'')]))
   \<and> message_read live sock None conversationId groupId d = (d, [])
   \<and> message_read live sock (Some []) conversationId groupId d = (d, [])
   \<and> typing_start live sock None None d = (d, [])
   \<and> typing_stop live sock None None d = (d, [])"
proof -
  have a: "status_in \<notin> set [''online'', ''offline'', ''away'', ''busy''] \<longrightarrow>
      status_change e live sock status_in d = (d, [(sid sock, ErrorEvent ''Invalid status'')])"
    by (simp add: status_change_def)
  have b: "status_get sock None d = (d, [(sid sock, ErrorEvent ''Invalid user IDs'')])"
    by (simp add: status_get_def)
  have c: "presence_history sock None d = (d, [(sid sock, ErrorEvent ''User ID is required'')])"
    by (simp add: presence_history_def)
  have f: "users d i = None \<longrightarrow>
      presence_history sock (Some i) d = (d, [(sid sock, ErrorEvent ''User not found'')])"
    by (simp add: presence_history_def)
  have g: "message_read live sock None conversationId groupId d = (d, [])"
    "message_read live sock (Some []) conversationId groupId d = (d, [])"
    by (simp_all add: message_read_def)
  have h: "typing_start live sock None None d = (d, [])" "typing_stop live sock None None d = (d, [])"
    by (simp_all add: typing_start_def typing_stop_def)
  show ?thesis
    using message_private_rejected[of sock conversationId content_in att d e live]
      message_group_rejected[of sock groupId content_in att d e live] a b c f g h
    by blast
qed

lemma not_valid_blank: "\<not> validMessage ex_blank None"
  by (simp add: validMessage_def validContent_def trim_def is_space_def ex_blank_def)

theorem C4_witness:
  "private_rejects ex_sock_b (Some 21) ex_hello None ex_db
   \<and> group_rejects ex_sock_a (Some 10) ex_blank None ex_db
   \<and> ''sleeping'' \<notin> set [''online'', ''offline'', ''away'', ''busy'']
   \<and> users ex_db 9 = None
   \<and> fst (message_private ex_env ex_live ex_sock_b (Some 21) ex_hello None ex_db) = ex_db
   \<and> oneErrorTo 200 (snd (message_private ex_env ex_live ex_sock_b (Some 21) ex_hello None ex_db))
   \<and> fst (message_group ex_env ex_live ex_sock_a (Some 10) ex_blank None ex_db) = ex_db
   \<and> oneErrorTo 100 (snd (message_group ex_env ex_live ex_sock_a (Some 10) ex_blank None ex_db))
   \<and> status_change ex_env ex_live ex_sock_a ''sleeping'' ex_db = (ex_db, [(100, ErrorEvent ''Invalid status'')])
   \<and> presence_history ex_sock_a (Some 9) ex_db = (ex_db, [(100, ErrorEvent ''User not found'')])"
proof -
  have r1: "private_rejects ex_sock_b (Some 21) ex_hello None ex_db"
    by (simp add: private_rejects_def ex_db_def ex_conversation_self_def ex_sock_b_def validMessage_hello)
  have r2: "group_rejects ex_sock_a (Some 10) ex_blank None ex_db"
    by (simp add: group_rejects_def not_valid_blank)
  have r3: "users ex_db 9 = None" by (simp add: ex_db_def ex_users_def)
  show ?thesis
    using C4_rejected_events_and_errors[where sock = ex_sock_b and conversationId = "Some 21"
          and content_in = ex_hello and att = None and d = ex_db and e = ex_env and live = ex_live
          and groupId = "Some 10" and status_in = "''sleeping''" and i = 9]
      C4_rejected_events_and_errors[where sock = ex_sock_a and conversationId = "Some 21"
          and content_in = ex_hello and att = None and d = ex_db and e = ex_env and live = ex_live
          and groupId = "Some 10" and status_in = "''sleeping''" and i = 9]
      C4_rejected_events_and_errors[where sock = ex_sock_a and conversationId = "Some 10"
          and content_in = ex_blank and att = None and d = ex_db and e = ex_env and live = ex_live
          and groupId = "Some 10" and status_in = "''sleeping''" and i = 9]
      r1 r2 r3 ex_rooms
    by simp
qed

text \<open>
  Claim C4 as stated fails: a \<^verbatim>\<open>message:read\<close> whose \<^verbatim>\<open>messageIds\<close> is missing or empty,
  and a \<^verbatim>\<open>typing:start\<close> that names no room, are dropped without any event.
\<close>

theorem C4_counterexample:
  "message_read ex_live ex_sock_a None (Some 20) None ex_db = (ex_db, [])
   \<and> message_read ex_live ex_sock_a (Some []) (Some 20) None ex_db = (ex_db, [])
   \<and> typing_start ex_live ex_sock_a None None ex_db = (ex_db, [])"
  by (simp add: message_read_def typing_start_def)

end
